theory Spec2Isabelle
  imports Complex_Main "HOL-Library.AList"
begin

section \<open>The fan controller of only-fan-controller (internal/controller/fan.go)\<close>

text \<open>
  Go's \<open>int\<close> and \<open>time.Duration\<close> are 64-bit two's complement integers (the program
  is built for 64-bit Linux). A value of either type is an \<open>int\<close> in the range
  \<open>int64\<close>, and the arithmetic of the decision logic wraps around as Go's does:
  \<open>go_add\<close>, \<open>go_sub\<close>, \<open>go_mul\<close> and \<open>go_neg\<close> are \<open>+\<close>, \<open>-\<close>, \<open>*\<close> and unary
  \<open>-\<close> of Go. Go's \<open>min\<close> and \<open>max\<close> helpers (fan.go, lines 517-529) are HOL's
  \<open>min\<close> and \<open>max\<close> on \<open>int\<close>. Integer division truncates towards zero in Go;
  \<open>go_quot\<close> and \<open>go_rem\<close> write that out (the program divides by 5 and by a minute
  only, so the quotient never overflows).
\<close>

definition int64 :: "int \<Rightarrow> bool" where
  "int64 x \<longleftrightarrow> - (2 ^ 63) \<le> x \<and> x < 2 ^ 63"

definition wrap64 :: "int \<Rightarrow> int" where
  "wrap64 x = (x + 2 ^ 63) mod 2 ^ 64 - 2 ^ 63"

definition go_add :: "int \<Rightarrow> int \<Rightarrow> int" where
  "go_add a b = wrap64 (a + b)"

definition go_sub :: "int \<Rightarrow> int \<Rightarrow> int" where
  "go_sub a b = wrap64 (a - b)"

definition go_mul :: "int \<Rightarrow> int \<Rightarrow> int" where
  "go_mul a b = wrap64 (a * b)"

definition go_neg :: "int \<Rightarrow> int" where
  "go_neg a = wrap64 (- a)"

definition go_quot :: "int \<Rightarrow> int \<Rightarrow> int" where
  "go_quot a b = sgn a * sgn b * (\<bar>a\<bar> div \<bar>b\<bar>)"

definition go_rem :: "int \<Rightarrow> int \<Rightarrow> int" where
  "go_rem a b = a - b * go_quot a b"

subsection \<open>Time\<close>

text \<open>
  A \<open>time.Time\<close> is the number of nanoseconds since Go's zero instant, so that the zero
  value of the type is \<open>0\<close>; a \<open>time.Duration\<close> is a number of nanoseconds. Every
  \<open>time.Now()\<close> of the source is an argument of the function that makes the call.
  There is one time line: wall clock and monotonic clock are not told apart. A \<open>Time\<close>
  has a far wider range than a \<open>Duration\<close>, so instants are not wrapped, and
  \<open>time_Sub\<close> is the plain difference between two instants, where Go's \<open>Sub\<close> stops at
  the ends of the \<open>Duration\<close> range (instants more than about 292 years apart).
\<close>

type_synonym time = int
type_synonym duration = int

definition Second :: duration where
  "Second = 1000000000"

definition Minute :: duration where
  "Minute = 60 * Second"

definition IsZero :: "time \<Rightarrow> bool" where
  "IsZero t \<longleftrightarrow> t = 0"

definition After :: "time \<Rightarrow> time \<Rightarrow> bool" where
  "After t u \<longleftrightarrow> u < t"

definition Before :: "time \<Rightarrow> time \<Rightarrow> bool" where
  "Before t u \<longleftrightarrow> t < u"

definition time_Sub :: "time \<Rightarrow> time \<Rightarrow> duration" where
  "time_Sub t u = t - u"

definition time_Add :: "time \<Rightarrow> duration \<Rightarrow> time" where
  "time_Add t d = t + d"

subsection \<open>Configuration (internal/config/config.go)\<close>

record MonitoringConfig =
  Interval :: int
  HistoryRetention :: int

record Zone =
  Name :: string
  CPUMax :: int
  GPUMax :: int
  FanSpeed :: int

record FanControlConfig =
  MinSpeed :: int
  MaxSpeed :: int
  IdleSpeed :: int
  CPUThreshold :: int
  GPUThreshold :: int
  StepSize :: int
  CooldownDelay :: int
  RampUpStep :: int
  RampDownStep :: int
  ConstantIdle :: bool

record Config =
  Monitoring :: MonitoringConfig
  Zones :: "Zone list"
  FanControl :: FanControlConfig

text \<open>The fan-control and monitoring part of \<open>config.Default()\<close>.\<close>

definition Default :: Config where
  "Default = \<lparr>
     Monitoring = \<lparr>Interval = 10, HistoryRetention = 3600\<rparr>,
     Zones = [
       \<lparr>Name = ''idle'', CPUMax = 45, GPUMax = 40, FanSpeed = 10\<rparr>,
       \<lparr>Name = ''normal'', CPUMax = 60, GPUMax = 70, FanSpeed = 25\<rparr>,
       \<lparr>Name = ''warm'', CPUMax = 70, GPUMax = 80, FanSpeed = 45\<rparr>,
       \<lparr>Name = ''hot'', CPUMax = 80, GPUMax = 85, FanSpeed = 70\<rparr>,
       \<lparr>Name = ''critical'', CPUMax = 999, GPUMax = 999, FanSpeed = 100\<rparr>],
     FanControl = \<lparr>MinSpeed = 5, MaxSpeed = 100, IdleSpeed = 20, CPUThreshold = 65,
       GPUThreshold = 60, StepSize = 10, CooldownDelay = 60, RampUpStep = 10,
       RampDownStep = 5, ConstantIdle = True\<rparr>\<rparr>"

subsection \<open>Readings (internal/monitor)\<close>

record GPUDevice =
  Index :: int
  DevName :: string
  Temp :: int
  Utilization :: int
  MemoryUsed :: int
  MemoryTotal :: int
  PowerDraw :: int

record CPUReading =
  Temps :: "int list"
  CPU_Max :: int

record GPUReading =
  Devices :: "GPUDevice list"
  GPU_Max :: int

subsection \<open>Controller state\<close>

record tempPoint =
  temp :: int
  timestamp :: time

record WorkloadHint =
  HintType :: string
  Action :: string
  Intensity :: string
  Source :: string
  MinFanSpeed :: int
  ExpiresAt :: time
  CreatedAt :: time

record Override =
  Speed :: int
  Reason :: string
  OvExpiresAt :: time
  OvCreatedAt :: time

text \<open>
  The struct \<open>FanController\<close>. The map \<open>hints\<close> is an association list with one entry
  per key, written with \<open>AList.update\<close> and \<open>AList.delete\<close>; a nil pointer is \<open>None\<close>.
  The registry holds hints as values: \<open>AddHint\<close> stores the pointer it is given, and its
  caller (\<open>handleHint\<close> in internal/api/server.go) allocates a struct for every request
  and writes to none afterwards. The monitors, the store, the mutex and the stop channel
  are not state of the decision logic: what the monitors, the actuator and the store
  return is an argument of the cycle. Every method runs under the mutex, so the model is
  sequential: one call after the other, and the two locked parts of a cycle (lines
  142-156 and \<open>calculateTarget\<close>) with no other call between them.
\<close>

record FanController =
  cfg :: Config
  currentSpeed :: int
  targetSpeed :: int
  currentZone :: string
  lastCPUReading :: "CPUReading option"
  lastGPUReading :: "GPUReading option"
  hints :: "(string \<times> WorkloadHint) list"
  override :: "Override option"
  running :: bool
  cpuHistory :: "tempPoint list"
  gpuHistory :: "tempPoint list"
  lastOverThreshold :: time

definition NewFanController :: "Config \<Rightarrow> FanController" where
  "NewFanController c = \<lparr>cfg = c, currentSpeed = 0, targetSpeed = 0, currentZone = [],
     lastCPUReading = None, lastGPUReading = None, hints = [], override = None,
     running = False, cpuHistory = [], gpuHistory = [], lastOverThreshold = 0\<rparr>"

subsection \<open>calculateTarget (fan.go, lines 173-285)\<close>

text \<open>The defaults that \<open>calculateTarget\<close> substitutes for a configured 0.\<close>

definition baseSpeed :: "Config \<Rightarrow> int" where
  "baseSpeed c = (if IdleSpeed (FanControl c) = 0 then 20 else IdleSpeed (FanControl c))"

definition cpuThreshold :: "Config \<Rightarrow> int" where
  "cpuThreshold c =
     (if CPUThreshold (FanControl c) = 0 then 65 else CPUThreshold (FanControl c))"

definition gpuThreshold :: "Config \<Rightarrow> int" where
  "gpuThreshold c =
     (if GPUThreshold (FanControl c) = 0 then 60 else GPUThreshold (FanControl c))"

definition stepSize :: "Config \<Rightarrow> int" where
  "stepSize c = (if StepSize (FanControl c) = 0 then 10 else StepSize (FanControl c))"

definition cooldownDuration :: "Config \<Rightarrow> duration" where
  "cooldownDuration c =
     (if go_mul (CooldownDelay (FanControl c)) Second = 0 then go_mul 60 Second
      else go_mul (CooldownDelay (FanControl c)) Second)"

text \<open>The loop over \<open>fc.hints\<close> (lines 196-201): the largest \<open>MinFanSpeed\<close>, from 0.\<close>

definition hintMinSpeed :: "(string \<times> WorkloadHint) list \<Rightarrow> int" where
  "hintMinSpeed hs =
     fold (\<lambda>(key, hint) m. if MinFanSpeed hint > m then MinFanSpeed hint else m) hs 0"

definition overThreshold :: "Config \<Rightarrow> int \<Rightarrow> int \<Rightarrow> bool" where
  "overThreshold c cpuMax gpuMax \<longleftrightarrow> cpuMax > cpuThreshold c \<or> gpuMax > gpuThreshold c"

text \<open>The zone name (lines 216-224).\<close>

definition zoneName :: "Config \<Rightarrow> int \<Rightarrow> int \<Rightarrow> string" where
  "zoneName c cpuMax gpuMax =
     (if cpuMax > 80 \<or> gpuMax > 85 then ''hot''
      else if cpuMax > 70 \<or> gpuMax > 75 then ''warm''
      else if overThreshold c cpuMax gpuMax then ''active''
      else ''idle'')"

text \<open>\<open>neededSpeed\<close> of the over-threshold branch (lines 239-245).\<close>

definition neededSpeed :: "Config \<Rightarrow> int \<Rightarrow> int \<Rightarrow> int" where
  "neededSpeed c cpuMax gpuMax =
     (let cpuOver = max 0 (go_sub cpuMax (cpuThreshold c));
          gpuOver = max 0 (go_sub gpuMax (gpuThreshold c));
          maxOver = max cpuOver gpuOver;
          stepsNeeded = go_add (go_quot maxOver 5) 1
      in go_add (baseSpeed c) (go_mul stepsNeeded (stepSize c)))"

text \<open>
  The same quantity as the specification words it, in unbounded arithmetic:
  \<open>idleSpeed + (floor(max(0, cpu.max - cpuThreshold, gpu.max - gpuThreshold) / 5) + 1) * stepSize\<close>;
  and the condition that no operation of lines 239-245 overflows.
\<close>

definition specNeeded :: "Config \<Rightarrow> int \<Rightarrow> int \<Rightarrow> int" where
  "specNeeded c cpuMax gpuMax =
     baseSpeed c +
     (max 0 (max (cpuMax - cpuThreshold c) (gpuMax - gpuThreshold c)) div 5 + 1) * stepSize c"

definition neededFits :: "Config \<Rightarrow> int \<Rightarrow> int \<Rightarrow> bool" where
  "neededFits c cpuMax gpuMax \<longleftrightarrow>
     int64 (cpuMax - cpuThreshold c) \<and>
     int64 (gpuMax - gpuThreshold c) \<and>
     int64 ((max 0 (max (cpuMax - cpuThreshold c) (gpuMax - gpuThreshold c)) div 5 + 1)
              * stepSize c) \<and>
     int64 (specNeeded c cpuMax gpuMax)"

text \<open>
  Lines 232-273: the value of \<open>target\<close> before the hint floor and the clamp, and the new
  \<open>lastOverThreshold\<close>.
\<close>

definition rampTarget :: "FanController \<Rightarrow> int \<Rightarrow> int \<Rightarrow> time \<Rightarrow> int \<times> time" where
  "rampTarget fc cpuMax gpuMax now =
     (let c = cfg fc; target = currentSpeed fc in
      if overThreshold c cpuMax gpuMax then
        (if neededSpeed c cpuMax gpuMax > target
         then min (go_add target (stepSize c)) (neededSpeed c cpuMax gpuMax)
         else target,
         now)
      else
        (if IsZero (lastOverThreshold fc) then baseSpeed c
         else if time_Sub now (lastOverThreshold fc) > cooldownDuration c then
           (if target > baseSpeed c then
              (if go_sub target (stepSize c) < baseSpeed c then baseSpeed c
               else go_sub target (stepSize c))
            else baseSpeed c)
         else target,
         lastOverThreshold fc))"

text \<open>
  \<open>calculateTarget\<close> returns the target and leaves the controller in a new state. With an
  override it returns at line 182, before any field is written.
\<close>

definition calculateTarget ::
  "FanController \<Rightarrow> CPUReading \<Rightarrow> GPUReading \<Rightarrow> time \<Rightarrow> int \<times> FanController" where
  "calculateTarget fc cpuReading gpuReading now =
     (let cpuMax = CPU_Max cpuReading; gpuMax = GPU_Max gpuReading in
      case override fc of
        Some ov \<Rightarrow> (Speed ov, fc)
      | None \<Rightarrow>
          (let c = cfg fc;
               floor_speed = hintMinSpeed (hints fc);
               (target, last) = rampTarget fc cpuMax gpuMax now;
               target = (if floor_speed > target then floor_speed else target);
               target = max (MinSpeed (FanControl c)) (min (MaxSpeed (FanControl c)) target)
           in (target,
               fc\<lparr>currentZone := zoneName c cpuMax gpuMax,
                   lastOverThreshold := last,
                   targetSpeed := target\<rparr>)))"

subsection \<open>calculateTrend (fan.go, lines 287-315)\<close>

text \<open>
  The result is a \<open>float64\<close> in Go; the model computes with real numbers, so the
  quotient is exact where the program rounds to the nearest double.
  \<open>Minutes\<close> is \<open>time.Duration.Minutes\<close> of the Go library: whole minutes plus the rest
  over \<open>60 * 1e9\<close>.
\<close>

definition Minutes :: "duration \<Rightarrow> real" where
  "Minutes d = real_of_int (go_quot d Minute) + real_of_int (go_rem d Minute) / (60 * 1000000000)"

definition recentPoints :: "tempPoint list \<Rightarrow> time \<Rightarrow> tempPoint list" where
  "recentPoints history now =
     filter (\<lambda>p. After (timestamp p) (time_Add now (- 60 * Second))) history"

definition calculateTrend :: "tempPoint list \<Rightarrow> time \<Rightarrow> real" where
  "calculateTrend history now =
     (if length history < 2 then 0
      else
        (let recent = recentPoints history now in
         if length recent < 2 then 0
         else
           (let first = recent ! 0;
                lastp = recent ! (length recent - 1);
                dur = Minutes (time_Sub (timestamp lastp) (timestamp first))
            in if dur < 1 / 10 then 0
               else real_of_int (temp lastp - temp first) / dur)))"

subsection \<open>trimHistory and cleanExpired (fan.go, lines 317-349)\<close>

definition trimHistory :: "FanController \<Rightarrow> time \<Rightarrow> FanController" where
  "trimHistory fc now =
     (let cutoff = time_Add now (go_mul (go_neg (HistoryRetention (Monitoring (cfg fc)))) Second) in
      fc\<lparr>cpuHistory := filter (\<lambda>p. After (timestamp p) cutoff) (cpuHistory fc),
          gpuHistory := filter (\<lambda>p. After (timestamp p) cutoff) (gpuHistory fc)\<rparr>)"

definition hintExpired :: "time \<Rightarrow> WorkloadHint \<Rightarrow> bool" where
  "hintExpired now hint \<longleftrightarrow> \<not> IsZero (ExpiresAt hint) \<and> Before (ExpiresAt hint) now"

definition overrideExpired :: "time \<Rightarrow> Override \<Rightarrow> bool" where
  "overrideExpired now ov \<longleftrightarrow> \<not> IsZero (OvExpiresAt ov) \<and> Before (OvExpiresAt ov) now"

definition cleanExpired :: "FanController \<Rightarrow> time \<Rightarrow> FanController" where
  "cleanExpired fc now =
     fc\<lparr>hints := filter (\<lambda>(key, hint). \<not> hintExpired now hint) (hints fc),
         override := (case override fc of
                        None \<Rightarrow> None
                      | Some ov \<Rightarrow> if overrideExpired now ov then None else Some ov)\<rparr>"

subsection \<open>setFanSpeed and controlLoop (fan.go, lines 128-171 and 351-380)\<close>

text \<open>
  \<open>setFanSpeed\<close> stores the speed and runs ipmitool with the speed in hexadecimal; what
  the command returns (\<open>None\<close> for success, \<open>Some\<close> of the error text otherwise) is an
  argument.
\<close>

definition setFanSpeed ::
  "FanController \<Rightarrow> int \<Rightarrow> string option \<Rightarrow> string option \<times> FanController" where
  "setFanSpeed fc speed cmdResult = (cmdResult, fc\<lparr>currentSpeed := speed\<rparr>)"

datatype LogEvent =
    CPUReadError string
  | GPUReadError string
  | SetFanSpeedFailed string
  | CycleLine int int string int

text \<open>
  What one run of \<open>controlLoop\<close> takes from outside: the two results of \<open>Read\<close> (\<open>Inl\<close>
  the error), the four clock readings (line 147, \<open>trimHistory\<close>, \<open>cleanExpired\<close>,
  \<open>calculateTarget\<close>) and the result of the ipmitool command.
\<close>

record CycleInput =
  cpuRead :: "string + CPUReading"
  gpuRead :: "string + GPUReading"
  nowAppend :: time
  nowTrim :: time
  nowClean :: time
  nowDecide :: time
  ipmiResult :: "string option"

text \<open>
  What one run leaves outside the controller: the log lines in order, the readings handed
  to \<open>calculateTarget\<close>, the speed handed to \<open>setFanSpeed\<close> and the arguments of
  \<open>store.RecordReading\<close>.
\<close>

record CycleOutput =
  logged :: "LogEvent list"
  decidedOn :: "CPUReading \<times> GPUReading"
  actuated :: int
  recorded :: "int \<times> int \<times> int"

definition cpuFallback :: CPUReading where
  "cpuFallback = \<lparr>Temps = [], CPU_Max = 0\<rparr>"

definition gpuFallback :: GPUReading where
  "gpuFallback = \<lparr>Devices = [], GPU_Max = 0\<rparr>"

definition controlLoop :: "FanController \<Rightarrow> CycleInput \<Rightarrow> FanController \<times> CycleOutput" where
  "controlLoop fc inp =
     (let (cpuReading, log1) =
            (case cpuRead inp of
               Inl err \<Rightarrow> (cpuFallback, [CPUReadError err])
             | Inr r \<Rightarrow> (r, []));
          (gpuReading, log2) =
            (case gpuRead inp of
               Inl err \<Rightarrow> (gpuFallback, [GPUReadError err])
             | Inr r \<Rightarrow> (r, []));
          fc1 = fc\<lparr>lastCPUReading := Some cpuReading, lastGPUReading := Some gpuReading\<rparr>;
          fc2 = fc1\<lparr>cpuHistory := cpuHistory fc1 @
                        [\<lparr>temp = CPU_Max cpuReading, timestamp = nowAppend inp\<rparr>],
                    gpuHistory := gpuHistory fc1 @
                        [\<lparr>temp = GPU_Max gpuReading, timestamp = nowAppend inp\<rparr>]\<rparr>;
          fc3 = trimHistory fc2 (nowTrim inp);
          fc4 = cleanExpired fc3 (nowClean inp);
          (target, fc5) = calculateTarget fc4 cpuReading gpuReading (nowDecide inp);
          (err, fc6) = setFanSpeed fc5 target (ipmiResult inp);
          log3 = (case err of None \<Rightarrow> [] | Some e \<Rightarrow> [SetFanSpeedFailed e])
      in (fc6,
          \<lparr>logged = log1 @ log2 @ log3 @
             [CycleLine (CPU_Max cpuReading) (GPU_Max gpuReading) (currentZone fc6) target],
           decidedOn = (cpuReading, gpuReading),
           actuated = target,
           recorded = (CPU_Max cpuReading, GPU_Max gpuReading, target)\<rparr>))"

text \<open>Consecutive cycles, as \<open>Run\<close> makes them: first to last.\<close>

fun runCycles :: "FanController \<Rightarrow> CycleInput list \<Rightarrow> FanController" where
  "runCycles fc [] = fc"
| "runCycles fc (inp # inps) = runCycles (fst (controlLoop fc inp)) inps"

subsection \<open>The registry operations (fan.go, lines 414-469)\<close>

text \<open>
  The \<open>log.Printf\<close> lines of the four operations are left out. The \<open>switch\<close> of
  \<open>AddHint\<close> (lines 420-429):
\<close>

definition intensityMinSpeed :: "string \<Rightarrow> int" where
  "intensityMinSpeed i =
     (if i = ''high'' then 45
      else if i = ''medium'' then 25
      else if i = ''low'' then 15
      else 25)"

definition AddHint :: "FanController \<Rightarrow> WorkloadHint \<Rightarrow> time \<Rightarrow> FanController" where
  "AddHint fc hint now =
     fc\<lparr>hints := AList.update (Source hint)
            (hint\<lparr>MinFanSpeed := intensityMinSpeed (Intensity hint), CreatedAt := now\<rparr>)
            (hints fc)\<rparr>"

definition RemoveHint :: "FanController \<Rightarrow> string \<Rightarrow> FanController" where
  "RemoveHint fc source = fc\<lparr>hints := AList.delete source (hints fc)\<rparr>"

text \<open>
  \<open>SetOverride\<close> reads the clock twice: for \<open>CreatedAt\<close> (line 453) and, when the
  duration is positive, for \<open>ExpiresAt\<close> (line 457), which is otherwise left at the zero
  value.
\<close>

definition SetOverride ::
  "FanController \<Rightarrow> int \<Rightarrow> duration \<Rightarrow> string \<Rightarrow> time \<Rightarrow> time \<Rightarrow> FanController" where
  "SetOverride fc speed dur reason nowCreated nowExpiry =
     fc\<lparr>override := Some \<lparr>Speed = speed, Reason = reason,
            OvExpiresAt = (if dur > 0 then time_Add nowExpiry dur else 0),
            OvCreatedAt = nowCreated\<rparr>\<rparr>"

definition ClearOverride :: "FanController \<Rightarrow> FanController" where
  "ClearOverride fc = fc\<lparr>override := None\<rparr>"

subsection \<open>GetStatus (fan.go, lines 472-515)\<close>

record Status =
  Status_Timestamp :: time
  Status_CPU :: "CPUReading option"
  Status_GPU :: "GPUReading option"
  Status_CurrentSpeed :: int
  Status_TargetSpeed :: int
  Status_Zone :: string
  Status_Mode :: string
  Status_ActiveHints :: "WorkloadHint list"
  Status_Override :: "Override option"
  Status_CPUTrend :: real
  Status_GPUTrend :: real
  Status_Zones :: "Zone list"
  Status_CPUThreshold :: int
  Status_GPUThreshold :: int
  Status_IdleSpeed :: int

text \<open>
  The three clock readings are the one of line 499 and the ones of the two calls of
  \<open>calculateTrend\<close>.
\<close>

definition GetStatus :: "FanController \<Rightarrow> time \<Rightarrow> time \<Rightarrow> time \<Rightarrow> Status" where
  "GetStatus fc now nowCPU nowGPU =
     (let mode = (if override fc \<noteq> None then ''override''
                  else if length (hints fc) > 0 then ''hinted''
                  else ''auto'');
          cpuT = (if CPUThreshold (FanControl (cfg fc)) = 0 then 65
                  else CPUThreshold (FanControl (cfg fc)));
          gpuT = (if GPUThreshold (FanControl (cfg fc)) = 0 then 60
                  else GPUThreshold (FanControl (cfg fc)))
      in \<lparr>Status_Timestamp = now,
          Status_CPU = lastCPUReading fc,
          Status_GPU = lastGPUReading fc,
          Status_CurrentSpeed = currentSpeed fc,
          Status_TargetSpeed = targetSpeed fc,
          Status_Zone = currentZone fc,
          Status_Mode = mode,
          Status_ActiveHints = map snd (hints fc),
          Status_Override = override fc,
          Status_CPUTrend = calculateTrend (cpuHistory fc) nowCPU,
          Status_GPUTrend = calculateTrend (gpuHistory fc) nowGPU,
          Status_Zones = Zones (cfg fc),
          Status_CPUThreshold = cpuT,
          Status_GPUThreshold = gpuT,
          Status_IdleSpeed = IdleSpeed (FanControl (cfg fc))\<rparr>)"

text \<open>The speeds that consecutive cycles hand to \<open>setFanSpeed\<close>.\<close>

fun cycleTargets :: "FanController \<Rightarrow> CycleInput list \<Rightarrow> int list" where
  "cycleTargets fc [] = []"
| "cycleTargets fc (inp # inps) =
     actuated (snd (controlLoop fc inp)) # cycleTargets (fst (controlLoop fc inp)) inps"

text \<open>
  Names for the values inside \<open>controlLoop\<close>: the readings it goes on with (lines 130-140),
  the controller when the lock is released at line 156, and the call of line 159.
\<close>

definition cycleCPU :: "CycleInput \<Rightarrow> CPUReading" where
  "cycleCPU inp = (case cpuRead inp of Inl err \<Rightarrow> cpuFallback | Inr r \<Rightarrow> r)"

definition cycleGPU :: "CycleInput \<Rightarrow> GPUReading" where
  "cycleGPU inp = (case gpuRead inp of Inl err \<Rightarrow> gpuFallback | Inr r \<Rightarrow> r)"

definition beforeDecision :: "FanController \<Rightarrow> CycleInput \<Rightarrow> FanController" where
  "beforeDecision fc inp =
     cleanExpired
       (trimHistory
          (fc\<lparr>lastCPUReading := Some (cycleCPU inp),
              lastGPUReading := Some (cycleGPU inp),
              cpuHistory := cpuHistory fc @
                [\<lparr>temp = CPU_Max (cycleCPU inp), timestamp = nowAppend inp\<rparr>],
              gpuHistory := gpuHistory fc @
                [\<lparr>temp = GPU_Max (cycleGPU inp), timestamp = nowAppend inp\<rparr>]\<rparr>)
          (nowTrim inp))
       (nowClean inp)"

definition cycleDecision :: "FanController \<Rightarrow> CycleInput \<Rightarrow> int \<times> FanController" where
  "cycleDecision fc inp =
     calculateTarget (beforeDecision fc inp) (cycleCPU inp) (cycleGPU inp) (nowDecide inp)"

subsection \<open>Calls on the controller\<close>

text \<open>
  The calls that change the controller: the four registry operations, which the API
  layer makes, and a run of the cycle. \<open>GetStatus\<close> only reads.
\<close>

datatype Call =
    CallAddHint WorkloadHint time
  | CallRemoveHint string
  | CallSetOverride int duration string time time
  | CallClearOverride
  | CallControlLoop CycleInput

fun call :: "FanController \<Rightarrow> Call \<Rightarrow> FanController" where
  "call fc (CallAddHint hint now) = AddHint fc hint now"
| "call fc (CallRemoveHint source) = RemoveHint fc source"
| "call fc (CallSetOverride speed dur reason nowCreated nowExpiry) =
     SetOverride fc speed dur reason nowCreated nowExpiry"
| "call fc CallClearOverride = ClearOverride fc"
| "call fc (CallControlLoop inp) = fst (controlLoop fc inp)"

fun calls :: "FanController \<Rightarrow> Call list \<Rightarrow> FanController" where
  "calls fc [] = fc"
| "calls fc (c # cs) = calls (call fc c) cs"

section \<open>Concrete controllers and readings\<close>

text \<open>The states and inputs at which the theorems below are evaluated.\<close>

definition coolCPU :: CPUReading where
  "coolCPU = \<lparr>Temps = [40, 42], CPU_Max = 42\<rparr>"

definition coolGPU :: GPUReading where
  "coolGPU = \<lparr>Devices = [], GPU_Max = 0\<rparr>"

definition highHint :: WorkloadHint where
  "highHint = \<lparr>HintType = ''gpu_load'', Action = ''start'', Intensity = ''high'',
     Source = ''whisper'', MinFanSpeed = 45, ExpiresAt = 0, CreatedAt = 1000\<rparr>"

definition slowOverride :: Override where
  "slowOverride = \<lparr>Speed = 3, Reason = ''testing'', OvExpiresAt = 0, OvCreatedAt = 1000\<rparr>"

text \<open>The default configuration, a high-intensity hint and an override to 3 percent.\<close>

definition overriddenController :: FanController where
  "overriddenController =
     (NewFanController Default)\<lparr>hints := [(''whisper'', highHint)],
        override := Some slowOverride\<rparr>"

text \<open>A configuration file that sets \<open>min_speed: 50\<close> and \<open>max_speed: 30\<close>.\<close>

definition invertedLimits :: Config where
  "invertedLimits =
     Default\<lparr>FanControl := (FanControl Default)\<lparr>MinSpeed := 50, MaxSpeed := 30\<rparr>\<rparr>"

text \<open>A configuration file that sets \<open>step_size: -5\<close>, and a controller running at 10.\<close>

definition negativeStep :: Config where
  "negativeStep = Default\<lparr>FanControl := (FanControl Default)\<lparr>StepSize := - 5\<rparr>\<rparr>"

definition negativeStepController :: FanController where
  "negativeStepController = (NewFanController negativeStep)\<lparr>currentSpeed := 10\<rparr>"

text \<open>The default configuration, running at the idle speed.\<close>

definition idleController :: FanController where
  "idleController = (NewFanController Default)\<lparr>currentSpeed := 20\<rparr>"

text \<open>
  The default configuration at speed 50: never over a threshold, and last over a
  threshold at second 1000.
\<close>

definition neverBreachedController :: FanController where
  "neverBreachedController = (NewFanController Default)\<lparr>currentSpeed := 50\<rparr>"

definition coolingController :: FanController where
  "coolingController =
     (NewFanController Default)\<lparr>currentSpeed := 50, lastOverThreshold := 1000 * Second\<rparr>"

text \<open>A cycle with a hot CPU, and a cycle in which both reads fail.\<close>

definition hotCycle :: CycleInput where
  "hotCycle = \<lparr>cpuRead = Inr \<lparr>Temps = [88, 90], CPU_Max = 90\<rparr>, gpuRead = Inr coolGPU,
     nowAppend = 2000 * Second, nowTrim = 2000 * Second, nowClean = 2000 * Second,
     nowDecide = 2000 * Second, ipmiResult = None\<rparr>"

definition failedCycle :: CycleInput where
  "failedCycle = \<lparr>cpuRead = Inl ''exit status 1'', gpuRead = Inl ''exit status 9'',
     nowAppend = 2010 * Second, nowTrim = 2010 * Second, nowClean = 2010 * Second,
     nowDecide = 2010 * Second, ipmiResult = Some ''ipmitool error''\<rparr>"

text \<open>The history \<open>{(40, t0), (46, t0 + 30s)}\<close>.\<close>

definition twoSamples :: "time \<Rightarrow> tempPoint list" where
  "twoSamples t0 =
     [\<lparr>temp = 40, timestamp = t0\<rparr>, \<lparr>temp = 46, timestamp = t0 + 30 * Second\<rparr>]"

text \<open>
  A low-intensity hint as the API layer builds it, from the source of \<open>highHint\<close>, and a
  controller that holds \<open>highHint\<close>.
\<close>

definition lowHint :: WorkloadHint where
  "lowHint = \<lparr>HintType = ''gpu_load'', Action = ''start'', Intensity = ''low'',
     Source = ''whisper'', MinFanSpeed = 0, ExpiresAt = 0, CreatedAt = 0\<rparr>"

definition hintedController :: FanController where
  "hintedController = (NewFanController Default)\<lparr>hints := [(''whisper'', highHint)]\<rparr>"

text \<open>A high-intensity hint whose caller has set \<open>MinFanSpeed\<close> to 5.\<close>

definition callerHint :: WorkloadHint where
  "callerHint = \<lparr>HintType = ''gpu_load'', Action = ''start'', Intensity = ''high'',
     Source = ''render'', MinFanSpeed = 5, ExpiresAt = 0, CreatedAt = 0\<rparr>"

text \<open>
  A configuration with \<open>idle_speed\<close>, \<open>cpu_threshold\<close> and \<open>gpu_threshold\<close> set to 0.
\<close>

definition zeroDefaults :: Config where
  "zeroDefaults = Default\<lparr>FanControl :=
     (FanControl Default)\<lparr>IdleSpeed := 0, CPUThreshold := 0, GPUThreshold := 0\<rparr>\<rparr>"

text \<open>A CPU one degree over the default threshold.\<close>

definition warmCPU :: CPUReading where
  "warmCPU = \<lparr>Temps = [66, 64], CPU_Max = 66\<rparr>"

text \<open>
  A configuration file that sets \<open>step_size: 9223372036854775807\<close>, the largest
  \<open>int\<close>, and a controller running at the idle speed.
\<close>

definition maximalStep :: Config where
  "maximalStep =
     Default\<lparr>FanControl := (FanControl Default)\<lparr>StepSize := 9223372036854775807\<rparr>\<rparr>"

definition maximalStepController :: FanController where
  "maximalStepController = (NewFanController maximalStep)\<lparr>currentSpeed := 20\<rparr>"

text \<open>The controller that holds \<open>highHint\<close>, running at the idle speed.\<close>

definition hintedIdleController :: FanController where
  "hintedIdleController = hintedController\<lparr>currentSpeed := 20\<rparr>"

text \<open>
  A configuration file that sets \<open>cooldown_delay: 9999999999\<close> (seconds), and a
  controller at speed 50 that was last over a threshold at second 1000.
\<close>

definition longCooldown :: Config where
  "longCooldown =
     Default\<lparr>FanControl := (FanControl Default)\<lparr>CooldownDelay := 9999999999\<rparr>\<rparr>"

definition longCooldownController :: FanController where
  "longCooldownController =
     (NewFanController longCooldown)\<lparr>currentSpeed := 50, lastOverThreshold := 1000 * Second\<rparr>"

text \<open>The same controller with \<open>step_size: -5\<close> and the default cooldown.\<close>

definition negativeStepCoolingController :: FanController where
  "negativeStepCoolingController =
     (NewFanController negativeStep)\<lparr>currentSpeed := 50, lastOverThreshold := 1000 * Second\<rparr>"

text \<open>A cycle with a hot CPU at second 1003.\<close>

definition earlyCycle :: CycleInput where
  "earlyCycle = \<lparr>cpuRead = Inr \<lparr>Temps = [88, 90], CPU_Max = 90\<rparr>, gpuRead = Inr coolGPU,
     nowAppend = 1003 * Second, nowTrim = 1003 * Second, nowClean = 1003 * Second,
     nowDecide = 1003 * Second, ipmiResult = None\<rparr>"

section \<open>Properties\<close>

subsection \<open>Auxiliary facts\<close>

lemma wrap64_id: "int64 x \<Longrightarrow> wrap64 x = x"
  by (simp add: int64_def wrap64_def)

lemma int64_wrap64: "int64 (wrap64 x)"
proof -
  have "0 \<le> (x + 2 ^ 63) mod 2 ^ 64" and "(x + 2 ^ 63) mod 2 ^ 64 < (2 ^ 64 :: int)"
    by simp_all
  then show ?thesis
    by (simp add: int64_def wrap64_def)
qed

lemma wrap64_ge: "x < 2 ^ 63 \<Longrightarrow> x \<le> wrap64 x"
proof (cases "- (2 ^ 63) \<le> x")
  case True
  assume "x < 2 ^ 63"
  with True show ?thesis
    by (simp add: wrap64_id int64_def)
next
  case False
  have "int64 (wrap64 x)"
    by (rule int64_wrap64)
  with False show ?thesis
    by (simp add: int64_def)
qed

lemma go_quot_nonneg: "0 \<le> a \<Longrightarrow> 0 < b \<Longrightarrow> go_quot a b = a div b"
  by (cases "a = 0") (simp_all add: go_quot_def)

lemma steps_fit: "0 \<le> x \<Longrightarrow> x < 2 ^ 63 \<Longrightarrow> int64 (x div 5 + 1)"
  by (simp add: int64_def)

text \<open>Where nothing overflows, \<open>neededSpeed\<close> is the quantity of the specification.\<close>

lemma neededSpeed_spec:
  assumes "neededFits c cpuMax gpuMax"
  shows "neededSpeed c cpuMax gpuMax = specNeeded c cpuMax gpuMax"
proof -
  let ?over = "max 0 (max (cpuMax - cpuThreshold c) (gpuMax - gpuThreshold c))"
  have a: "int64 (cpuMax - cpuThreshold c)" and b: "int64 (gpuMax - gpuThreshold c)"
    and m: "int64 ((?over div 5 + 1) * stepSize c)" and n: "int64 (specNeeded c cpuMax gpuMax)"
    using assms by (simp_all add: neededFits_def)
  have over: "max (max 0 (go_sub cpuMax (cpuThreshold c))) (max 0 (go_sub gpuMax (gpuThreshold c)))
      = ?over"
    by (simp add: go_sub_def wrap64_id a b)
  have range: "0 \<le> ?over" "?over < 2 ^ 63"
    using a b by (simp_all add: int64_def)
  have q: "go_quot ?over 5 = ?over div 5"
    by (rule go_quot_nonneg) simp_all
  have "int64 (?over div 5 + 1)"
    using range by (rule steps_fit)
  then have steps: "go_add (go_quot ?over 5) 1 = ?over div 5 + 1"
    by (simp add: go_add_def q wrap64_id)
  have "neededSpeed c cpuMax gpuMax =
      go_add (baseSpeed c) (go_mul (?over div 5 + 1) (stepSize c))"
    by (simp add: neededSpeed_def Let_def over steps)
  also have "\<dots> = baseSpeed c + (?over div 5 + 1) * stepSize c"
    using m n by (simp add: go_add_def go_mul_def wrap64_id specNeeded_def)
  finally show ?thesis
    by (simp add: specNeeded_def)
qed

lemma stepSize_pos: "0 \<le> StepSize (FanControl c) \<Longrightarrow> 0 < stepSize c"
  by (simp add: stepSize_def)

text \<open>
  Without an override, \<open>calculateTarget\<close> is \<open>rampTarget\<close>, then the hint floor, then the
  clamp; it writes the zone, the hysteresis anchor and the target.
\<close>

lemma calculateTarget_None:
  "override fc = None \<Longrightarrow>
   calculateTarget fc cpuReading gpuReading now =
     (let r = rampTarget fc (CPU_Max cpuReading) (GPU_Max gpuReading) now;
          t = max (MinSpeed (FanControl (cfg fc)))
                (min (MaxSpeed (FanControl (cfg fc))) (max (hintMinSpeed (hints fc)) (fst r)))
      in (t, fc\<lparr>currentZone := zoneName (cfg fc) (CPU_Max cpuReading) (GPU_Max gpuReading),
                 lastOverThreshold := snd r, targetSpeed := t\<rparr>))"
  by (simp add: calculateTarget_def Let_def split: prod.splits)

lemma calculateTarget_Some:
  "override fc = Some ov \<Longrightarrow> calculateTarget fc cpuReading gpuReading now = (Speed ov, fc)"
  by (simp add: calculateTarget_def)

subsection \<open>The limits of the target\<close>

text \<open>
  C1, as stated, fails: with the default configuration (\<open>MinSpeed = 5\<close>) and an override
  to 3 percent, \<open>calculateTarget\<close> returns 3 and leaves \<open>targetSpeed\<close> at its initial 0,
  both below \<open>MinSpeed\<close>; and with \<open>MinSpeed = 50\<close>, \<open>MaxSpeed = 30\<close> and no override it
  returns 50, above \<open>MaxSpeed\<close>.
\<close>

theorem calculateTarget_limits_counterexample:
  "\<not> (MinSpeed (FanControl (cfg overriddenController))
        \<le> fst (calculateTarget overriddenController coolCPU coolGPU 2000)) \<and>
   \<not> (MinSpeed (FanControl (cfg overriddenController))
        \<le> targetSpeed (snd (calculateTarget overriddenController coolCPU coolGPU 2000))) \<and>
   \<not> (fst (calculateTarget (NewFanController invertedLimits) coolCPU coolGPU 2000)
        \<le> MaxSpeed (FanControl (cfg (NewFanController invertedLimits))))"
  by (simp add: calculateTarget_def overriddenController_def slowOverride_def
      NewFanController_def Default_def invertedLimits_def coolCPU_def coolGPU_def
      rampTarget_def overThreshold_def cpuThreshold_def gpuThreshold_def IsZero_def
      baseSpeed_def hintMinSpeed_def Let_def)

text \<open>
  C1, amended: on a call without an override, the target \<open>t\<close> that \<open>calculateTarget\<close> returns
  satisfies \<open>MinSpeed \<le> t\<close>, satisfies \<open>t \<le> MaxSpeed\<close> whenever the configuration has
  \<open>MinSpeed \<le> MaxSpeed\<close>, and is the new \<open>targetSpeed\<close>. A call with an override leaves
  \<open>targetSpeed\<close> as it was. No call changes the configuration.
\<close>

theorem calculateTarget_limits:
  "(override fc = None \<longrightarrow>
      MinSpeed (FanControl (cfg fc)) \<le> fst (calculateTarget fc cpuReading gpuReading now) \<and>
      (MinSpeed (FanControl (cfg fc)) \<le> MaxSpeed (FanControl (cfg fc)) \<longrightarrow>
         fst (calculateTarget fc cpuReading gpuReading now) \<le> MaxSpeed (FanControl (cfg fc))) \<and>
      targetSpeed (snd (calculateTarget fc cpuReading gpuReading now))
        = fst (calculateTarget fc cpuReading gpuReading now)) \<and>
   (override fc \<noteq> None \<longrightarrow>
      targetSpeed (snd (calculateTarget fc cpuReading gpuReading now)) = targetSpeed fc) \<and>
   cfg (snd (calculateTarget fc cpuReading gpuReading now)) = cfg fc"
proof (cases "override fc")
  case None
  then show ?thesis
    by (simp add: calculateTarget_None Let_def)
next
  case (Some ov)
  then show ?thesis
    by (simp add: calculateTarget_Some)
qed

theorem calculateTarget_limits_witness:
  "override idleController = None \<and>
   MinSpeed (FanControl (cfg idleController)) \<le> MaxSpeed (FanControl (cfg idleController)) \<and>
   MinSpeed (FanControl (cfg idleController))
     \<le> fst (calculateTarget idleController coolCPU coolGPU 2000) \<and>
   fst (calculateTarget idleController coolCPU coolGPU 2000)
     \<le> MaxSpeed (FanControl (cfg idleController)) \<and>
   targetSpeed (snd (calculateTarget idleController coolCPU coolGPU 2000))
     = fst (calculateTarget idleController coolCPU coolGPU 2000) \<and>
   override overriddenController \<noteq> None \<and>
   targetSpeed (snd (calculateTarget overriddenController coolCPU coolGPU 2000))
     = targetSpeed overriddenController"
proof -
  have a: "override idleController = None"
    by (simp add: idleController_def NewFanController_def)
  have b: "MinSpeed (FanControl (cfg idleController)) \<le> MaxSpeed (FanControl (cfg idleController))"
    by (simp add: idleController_def NewFanController_def Default_def)
  have c: "override overriddenController \<noteq> None"
    by (simp add: overriddenController_def)
  show ?thesis
    using a b c calculateTarget_limits [of idleController coolCPU coolGPU 2000]
      calculateTarget_limits [of overriddenController coolCPU coolGPU 2000]
    by blast
qed

subsection \<open>The over-threshold branch\<close>

text \<open>
  C2, as stated, fails in three ways, each without an override and with the CPU at 66
  degrees (threshold 65), so in the over-threshold branch.
  With \<open>step_size: -5\<close> and a controller running at 10, \<open>neededSpeed\<close> is 15 and the
  target before the hint floor and the clamp is 5, which is also the target returned: the
  target decreases.
  With \<open>step_size: 9223372036854775807\<close> and a controller running at 20, the sum of line
  245 wraps around: \<open>neededSpeed\<close> is \<open>-9223372036854775789\<close>, not the
  \<open>9223372036854775827\<close> of the formula, and the target stays 20, where the formula
  gives \<open>9223372036854775827\<close>.
  With the default configuration, a controller running at the idle speed 20 and a
  high-intensity hint, the speed returned is 45: it rises by 25, where
  \<open>min(stepSize, needed - idleSpeed)\<close> is 10.
\<close>

theorem calculateTarget_over_threshold_counterexample:
  "overThreshold (cfg negativeStepController) (CPU_Max warmCPU) (GPU_Max coolGPU) \<and>
   override negativeStepController = None \<and>
   currentSpeed negativeStepController = 10 \<and>
   fst (rampTarget negativeStepController (CPU_Max warmCPU) (GPU_Max coolGPU) 2000) = 5 \<and>
   \<not> (currentSpeed negativeStepController
        \<le> fst (rampTarget negativeStepController (CPU_Max warmCPU) (GPU_Max coolGPU) 2000)) \<and>
   fst (calculateTarget negativeStepController warmCPU coolGPU 2000) = 5 \<and>
   overThreshold (cfg maximalStepController) (CPU_Max warmCPU) (GPU_Max coolGPU) \<and>
   override maximalStepController = None \<and>
   0 \<le> StepSize (FanControl (cfg maximalStepController)) \<and>
   neededSpeed (cfg maximalStepController) (CPU_Max warmCPU) (GPU_Max coolGPU)
     = - 9223372036854775789 \<and>
   specNeeded (cfg maximalStepController) (CPU_Max warmCPU) (GPU_Max coolGPU)
     = 9223372036854775827 \<and>
   fst (rampTarget maximalStepController (CPU_Max warmCPU) (GPU_Max coolGPU) 2000) = 20 \<and>
   min (currentSpeed maximalStepController + stepSize (cfg maximalStepController))
       (max (currentSpeed maximalStepController)
            (specNeeded (cfg maximalStepController) (CPU_Max warmCPU) (GPU_Max coolGPU)))
     = 9223372036854775827 \<and>
   overThreshold (cfg hintedIdleController) (CPU_Max warmCPU) (GPU_Max coolGPU) \<and>
   override hintedIdleController = None \<and>
   currentSpeed hintedIdleController = baseSpeed (cfg hintedIdleController) \<and>
   fst (calculateTarget hintedIdleController warmCPU coolGPU 2000)
     - currentSpeed hintedIdleController = 25 \<and>
   min (stepSize (cfg hintedIdleController))
       (neededSpeed (cfg hintedIdleController) (CPU_Max warmCPU) (GPU_Max coolGPU)
          - baseSpeed (cfg hintedIdleController)) = 10"
proof -
  have m: "CPU_Max warmCPU = 66" "GPU_Max coolGPU = 0"
    by (simp_all add: warmCPU_def coolGPU_def)
  have neg: "cfg negativeStepController = negativeStep"
    "currentSpeed negativeStepController = 10" "override negativeStepController = None"
    "hints negativeStepController = []"
    by (simp_all add: negativeStepController_def NewFanController_def)
  have negv: "cpuThreshold negativeStep = 65" "gpuThreshold negativeStep = 60"
    "baseSpeed negativeStep = 20" "stepSize negativeStep = - 5"
    "MinSpeed (FanControl negativeStep) = 5" "MaxSpeed (FanControl negativeStep) = 100"
    by (simp_all add: cpuThreshold_def gpuThreshold_def baseSpeed_def stepSize_def
        negativeStep_def Default_def)
  have negn: "neededSpeed negativeStep 66 0 = 15"
    by (simp add: neededSpeed_def negv go_sub_def go_add_def go_mul_def go_quot_def wrap64_def
        Let_def)
  have negr: "fst (rampTarget negativeStepController 66 0 2000) = 5"
    by (simp add: rampTarget_def neg negv negn overThreshold_def go_add_def wrap64_def Let_def)
  have negc: "fst (calculateTarget negativeStepController warmCPU coolGPU 2000) = 5"
    by (simp add: calculateTarget_None neg negv m negr hintMinSpeed_def Let_def)
  have big: "cfg maximalStepController = maximalStep"
    "currentSpeed maximalStepController = 20" "override maximalStepController = None"
    by (simp_all add: maximalStepController_def NewFanController_def)
  have bigv: "cpuThreshold maximalStep = 65" "gpuThreshold maximalStep = 60"
    "baseSpeed maximalStep = 20" "stepSize maximalStep = 9223372036854775807"
    "StepSize (FanControl maximalStep) = 9223372036854775807"
    by (simp_all add: cpuThreshold_def gpuThreshold_def baseSpeed_def stepSize_def
        maximalStep_def Default_def)
  have bign: "neededSpeed maximalStep 66 0 = - 9223372036854775789"
    by (simp add: neededSpeed_def bigv go_sub_def go_add_def go_mul_def go_quot_def wrap64_def
        Let_def)
  have bigs: "specNeeded maximalStep 66 0 = 9223372036854775827"
    by (simp add: specNeeded_def bigv)
  have bigr: "fst (rampTarget maximalStepController 66 0 2000) = 20"
    by (simp add: rampTarget_def big bigv bign overThreshold_def Let_def)
  have hin: "cfg hintedIdleController = Default" "currentSpeed hintedIdleController = 20"
    "override hintedIdleController = None"
    "hintMinSpeed (hints hintedIdleController) = 45"
    by (simp_all add: hintedIdleController_def hintedController_def NewFanController_def
        hintMinSpeed_def highHint_def)
  have hinv: "cpuThreshold Default = 65" "gpuThreshold Default = 60" "baseSpeed Default = 20"
    "stepSize Default = 10" "MinSpeed (FanControl Default) = 5"
    "MaxSpeed (FanControl Default) = 100"
    by (simp_all add: cpuThreshold_def gpuThreshold_def baseSpeed_def stepSize_def Default_def)
  have hinn: "neededSpeed Default 66 0 = 30"
    by (simp add: neededSpeed_def hinv go_sub_def go_add_def go_mul_def go_quot_def wrap64_def
        Let_def)
  have hinr: "fst (rampTarget hintedIdleController 66 0 2000) = 30"
    by (simp add: rampTarget_def hin hinv hinn overThreshold_def go_add_def wrap64_def Let_def)
  have hinc: "fst (calculateTarget hintedIdleController warmCPU coolGPU 2000) = 45"
    by (simp add: calculateTarget_None hin hinv m hinr Let_def)
  show ?thesis
    by (simp add: m neg negv negr negc big bigv bign bigs bigr hin hinv hinn hinc
        overThreshold_def)
qed

text \<open>
  C2, amended: a call of \<open>calculateTarget\<close> without an override and with
  \<open>cpu.max > cpuThreshold\<close> or \<open>gpu.max > gpuThreshold\<close> sets \<open>lastOverThreshold\<close> to
  \<open>now\<close>. Where no operation of its computation overflows the 64-bit \<open>int\<close>, \<open>needed\<close> is
  \<open>idleSpeed + (floor(max(0, cpu.max - cpuThreshold, gpu.max - gpuThreshold) / 5) + 1) * stepSize\<close>.
  When the configured \<open>StepSize\<close> is not negative and \<open>currentSpeed + stepSize\<close> does
  not overflow, the target before the hint floor and the clamp is
  \<open>min(currentSpeed + stepSize, max(currentSpeed, needed))\<close>: it rises by at most one
  \<open>stepSize\<close> and does not decrease; and then, starting from
  \<open>currentSpeed = idleSpeed\<close> with \<open>needed\<close> computed without overflow, it rises by
  exactly \<open>min(stepSize, needed - idleSpeed)\<close>. This is about the target before the hint
  floor and the clamp: the speed returned is that target after both, and equals it when
  the hint floor is not above it and it lies within the configured limits. (The
  thresholds, the idle speed and the step are the effective ones, after the defaults for
  a configured 0.)
\<close>

theorem calculateTarget_over_threshold:
  assumes none: "override fc = None"
    and over: "overThreshold (cfg fc) (CPU_Max cpuReading) (GPU_Max gpuReading)"
  shows "lastOverThreshold (snd (calculateTarget fc cpuReading gpuReading now)) = now \<and>
    (neededFits (cfg fc) (CPU_Max cpuReading) (GPU_Max gpuReading) \<longrightarrow>
       neededSpeed (cfg fc) (CPU_Max cpuReading) (GPU_Max gpuReading) =
         baseSpeed (cfg fc) +
         (max 0 (max (CPU_Max cpuReading - cpuThreshold (cfg fc))
                     (GPU_Max gpuReading - gpuThreshold (cfg fc))) div 5 + 1)
           * stepSize (cfg fc)) \<and>
    (0 \<le> StepSize (FanControl (cfg fc)) \<and> int64 (currentSpeed fc + stepSize (cfg fc)) \<longrightarrow>
       fst (rampTarget fc (CPU_Max cpuReading) (GPU_Max gpuReading) now) =
         min (currentSpeed fc + stepSize (cfg fc))
             (max (currentSpeed fc)
                  (neededSpeed (cfg fc) (CPU_Max cpuReading) (GPU_Max gpuReading))) \<and>
       fst (rampTarget fc (CPU_Max cpuReading) (GPU_Max gpuReading) now)
         \<le> currentSpeed fc + stepSize (cfg fc) \<and>
       currentSpeed fc \<le> fst (rampTarget fc (CPU_Max cpuReading) (GPU_Max gpuReading) now)) \<and>
    (0 \<le> StepSize (FanControl (cfg fc)) \<and> int64 (currentSpeed fc + stepSize (cfg fc)) \<and>
     neededFits (cfg fc) (CPU_Max cpuReading) (GPU_Max gpuReading) \<and>
     currentSpeed fc = baseSpeed (cfg fc) \<longrightarrow>
       fst (rampTarget fc (CPU_Max cpuReading) (GPU_Max gpuReading) now) - currentSpeed fc =
         min (stepSize (cfg fc))
             (neededSpeed (cfg fc) (CPU_Max cpuReading) (GPU_Max gpuReading)
                - baseSpeed (cfg fc))) \<and>
    (hintMinSpeed (hints fc) \<le> fst (rampTarget fc (CPU_Max cpuReading) (GPU_Max gpuReading) now) \<and>
     MinSpeed (FanControl (cfg fc))
       \<le> fst (rampTarget fc (CPU_Max cpuReading) (GPU_Max gpuReading) now) \<and>
     fst (rampTarget fc (CPU_Max cpuReading) (GPU_Max gpuReading) now)
       \<le> MaxSpeed (FanControl (cfg fc)) \<longrightarrow>
       fst (calculateTarget fc cpuReading gpuReading now) =
         fst (rampTarget fc (CPU_Max cpuReading) (GPU_Max gpuReading) now)) \<and>
    fst (calculateTarget fc cpuReading gpuReading now) =
      max (MinSpeed (FanControl (cfg fc)))
        (min (MaxSpeed (FanControl (cfg fc)))
           (max (hintMinSpeed (hints fc))
              (fst (rampTarget fc (CPU_Max cpuReading) (GPU_Max gpuReading) now))))"
proof -
  let ?cpuMax = "CPU_Max cpuReading" and ?gpuMax = "GPU_Max gpuReading"
  let ?pre = "fst (rampTarget fc ?cpuMax ?gpuMax now)"
  let ?needed = "neededSpeed (cfg fc) ?cpuMax ?gpuMax"
  have r: "?pre =
      (if ?needed > currentSpeed fc
       then min (go_add (currentSpeed fc) (stepSize (cfg fc))) ?needed
       else currentSpeed fc)"
    and l: "snd (rampTarget fc ?cpuMax ?gpuMax now) = now"
    using over by (simp_all add: rampTarget_def Let_def)
  have anchor: "lastOverThreshold (snd (calculateTarget fc cpuReading gpuReading now)) = now"
    using none l by (simp add: calculateTarget_None Let_def)
  have final: "fst (calculateTarget fc cpuReading gpuReading now) =
      max (MinSpeed (FanControl (cfg fc)))
        (min (MaxSpeed (FanControl (cfg fc))) (max (hintMinSpeed (hints fc)) ?pre))"
    using none by (simp add: calculateTarget_None Let_def)
  have needed: "?needed =
      baseSpeed (cfg fc) +
      (max 0 (max (?cpuMax - cpuThreshold (cfg fc)) (?gpuMax - gpuThreshold (cfg fc))) div 5 + 1)
        * stepSize (cfg fc)"
    if "neededFits (cfg fc) ?cpuMax ?gpuMax"
    using neededSpeed_spec [OF that] by (simp add: specNeeded_def)
  have f: "?pre = min (currentSpeed fc + stepSize (cfg fc)) (max (currentSpeed fc) ?needed)"
    if "0 \<le> StepSize (FanControl (cfg fc)) \<and> int64 (currentSpeed fc + stepSize (cfg fc))"
  proof -
    have pos: "0 < stepSize (cfg fc)"
      using that by (simp add: stepSize_pos)
    have "go_add (currentSpeed fc) (stepSize (cfg fc)) = currentSpeed fc + stepSize (cfg fc)"
      using that by (simp add: go_add_def wrap64_id)
    then show ?thesis
      using pos unfolding r by simp
  qed
  have ramp: "?pre = min (currentSpeed fc + stepSize (cfg fc)) (max (currentSpeed fc) ?needed) \<and>
      ?pre \<le> currentSpeed fc + stepSize (cfg fc) \<and> currentSpeed fc \<le> ?pre"
    if h: "0 \<le> StepSize (FanControl (cfg fc)) \<and> int64 (currentSpeed fc + stepSize (cfg fc))"
  proof -
    have pos: "0 < stepSize (cfg fc)"
      using h by (simp add: stepSize_pos)
    show ?thesis
      using pos unfolding f [OF h] by simp
  qed
  have first: "?pre - currentSpeed fc = min (stepSize (cfg fc)) (?needed - baseSpeed (cfg fc))"
    if h: "0 \<le> StepSize (FanControl (cfg fc)) \<and> int64 (currentSpeed fc + stepSize (cfg fc)) \<and>
        neededFits (cfg fc) ?cpuMax ?gpuMax \<and> currentSpeed fc = baseSpeed (cfg fc)"
  proof -
    have pos: "0 < stepSize (cfg fc)"
      using h by (simp add: stepSize_pos)
    have "0 \<le> max 0 (max (?cpuMax - cpuThreshold (cfg fc)) (?gpuMax - gpuThreshold (cfg fc))) div 5"
      by simp
    then have "0 \<le> (max 0 (max (?cpuMax - cpuThreshold (cfg fc)) (?gpuMax - gpuThreshold (cfg fc)))
          div 5 + 1) * stepSize (cfg fc)"
      using pos by simp
    moreover have fits: "neededFits (cfg fc) ?cpuMax ?gpuMax"
      and idle: "currentSpeed fc = baseSpeed (cfg fc)"
      and hf: "0 \<le> StepSize (FanControl (cfg fc)) \<and> int64 (currentSpeed fc + stepSize (cfg fc))"
      using h by blast+
    ultimately have "baseSpeed (cfg fc) \<le> ?needed"
      unfolding needed [OF fits] by simp
    then show ?thesis
      unfolding f [OF hf] idle using pos by simp
  qed
  have unbound: "fst (calculateTarget fc cpuReading gpuReading now) = ?pre"
    if "hintMinSpeed (hints fc) \<le> ?pre \<and> MinSpeed (FanControl (cfg fc)) \<le> ?pre \<and>
        ?pre \<le> MaxSpeed (FanControl (cfg fc))"
    using that unfolding final by simp
  from needed ramp first unbound have
    "neededFits (cfg fc) ?cpuMax ?gpuMax \<longrightarrow>
       ?needed =
         baseSpeed (cfg fc) +
         (max 0 (max (?cpuMax - cpuThreshold (cfg fc)) (?gpuMax - gpuThreshold (cfg fc)))
            div 5 + 1) * stepSize (cfg fc)"
    "0 \<le> StepSize (FanControl (cfg fc)) \<and> int64 (currentSpeed fc + stepSize (cfg fc)) \<longrightarrow>
       ?pre = min (currentSpeed fc + stepSize (cfg fc)) (max (currentSpeed fc) ?needed) \<and>
       ?pre \<le> currentSpeed fc + stepSize (cfg fc) \<and> currentSpeed fc \<le> ?pre"
    "0 \<le> StepSize (FanControl (cfg fc)) \<and> int64 (currentSpeed fc + stepSize (cfg fc)) \<and>
     neededFits (cfg fc) ?cpuMax ?gpuMax \<and> currentSpeed fc = baseSpeed (cfg fc) \<longrightarrow>
       ?pre - currentSpeed fc = min (stepSize (cfg fc)) (?needed - baseSpeed (cfg fc))"
    "hintMinSpeed (hints fc) \<le> ?pre \<and> MinSpeed (FanControl (cfg fc)) \<le> ?pre \<and>
     ?pre \<le> MaxSpeed (FanControl (cfg fc)) \<longrightarrow>
       fst (calculateTarget fc cpuReading gpuReading now) = ?pre"
    by blast+
  then show ?thesis
    by (intro conjI anchor final)
qed

text \<open>
  At the default configuration, from the idle speed 20 with the CPU one degree over its
  threshold and the GPU at 0: nothing overflows, \<open>needed\<close> is 30 and the target rises by
  10, to 30, which is also the speed returned.
\<close>

theorem calculateTarget_over_threshold_witness:
  "override idleController = None \<and>
   CPU_Max warmCPU = cpuThreshold (cfg idleController) + 1 \<and>
   GPU_Max coolGPU = 0 \<and>
   overThreshold (cfg idleController) (CPU_Max warmCPU) (GPU_Max coolGPU) \<and>
   neededFits (cfg idleController) (CPU_Max warmCPU) (GPU_Max coolGPU) \<and>
   0 \<le> StepSize (FanControl (cfg idleController)) \<and>
   int64 (currentSpeed idleController + stepSize (cfg idleController)) \<and>
   currentSpeed idleController = baseSpeed (cfg idleController) \<and>
   lastOverThreshold (snd (calculateTarget idleController warmCPU coolGPU 2000)) = 2000 \<and>
   neededSpeed (cfg idleController) (CPU_Max warmCPU) (GPU_Max coolGPU) = 30 \<and>
   fst (rampTarget idleController (CPU_Max warmCPU) (GPU_Max coolGPU) 2000) = 30 \<and>
   fst (rampTarget idleController (CPU_Max warmCPU) (GPU_Max coolGPU) 2000)
     - currentSpeed idleController = 10 \<and>
   hintMinSpeed (hints idleController)
     \<le> fst (rampTarget idleController (CPU_Max warmCPU) (GPU_Max coolGPU) 2000) \<and>
   MinSpeed (FanControl (cfg idleController))
     \<le> fst (rampTarget idleController (CPU_Max warmCPU) (GPU_Max coolGPU) 2000) \<and>
   fst (rampTarget idleController (CPU_Max warmCPU) (GPU_Max coolGPU) 2000)
     \<le> MaxSpeed (FanControl (cfg idleController)) \<and>
   fst (calculateTarget idleController warmCPU coolGPU 2000) = 30"
proof -
  have c: "cfg idleController = Default" "currentSpeed idleController = 20"
    "hints idleController = []"
    by (simp_all add: idleController_def NewFanController_def)
  have v: "cpuThreshold Default = 65" "gpuThreshold Default = 60" "baseSpeed Default = 20"
    "stepSize Default = 10" "StepSize (FanControl Default) = 10"
    "MinSpeed (FanControl Default) = 5" "MaxSpeed (FanControl Default) = 100"
    by (simp_all add: cpuThreshold_def gpuThreshold_def baseSpeed_def stepSize_def Default_def)
  have m: "CPU_Max warmCPU = 66" "GPU_Max coolGPU = 0"
    by (simp_all add: warmCPU_def coolGPU_def)
  have none: "override idleController = None"
    by (simp add: idleController_def NewFanController_def)
  have over: "overThreshold (cfg idleController) (CPU_Max warmCPU) (GPU_Max coolGPU)"
    by (simp add: c v m overThreshold_def)
  have fits: "neededFits (cfg idleController) (CPU_Max warmCPU) (GPU_Max coolGPU)"
    by (simp add: neededFits_def specNeeded_def int64_def c v m)
  have step: "0 \<le> StepSize (FanControl (cfg idleController))"
    by (simp add: c v)
  have sum: "int64 (currentSpeed idleController + stepSize (cfg idleController))"
    by (simp add: int64_def c v)
  note t = calculateTarget_over_threshold [OF none over, of 2000]
  have one: "CPU_Max warmCPU = cpuThreshold (cfg idleController) + 1"
    and idle: "currentSpeed idleController = baseSpeed (cfg idleController)"
    by (simp_all add: c v m)
  have n: "neededSpeed (cfg idleController) (CPU_Max warmCPU) (GPU_Max coolGPU) = 30"
    using t fits by (simp add: c v m)
  have r: "fst (rampTarget idleController (CPU_Max warmCPU) (GPU_Max coolGPU) 2000) = 30"
    using t step sum unfolding n by (simp add: c v)
  have rise: "fst (rampTarget idleController (CPU_Max warmCPU) (GPU_Max coolGPU) 2000)
     - currentSpeed idleController = 10"
    unfolding r by (simp add: c)
  have a: "lastOverThreshold (snd (calculateTarget idleController warmCPU coolGPU 2000)) = 2000"
    using t by (rule conjunct1)
  have free: "hintMinSpeed (hints idleController)
     \<le> fst (rampTarget idleController (CPU_Max warmCPU) (GPU_Max coolGPU) 2000)"
    "MinSpeed (FanControl (cfg idleController))
     \<le> fst (rampTarget idleController (CPU_Max warmCPU) (GPU_Max coolGPU) 2000)"
    "fst (rampTarget idleController (CPU_Max warmCPU) (GPU_Max coolGPU) 2000)
     \<le> MaxSpeed (FanControl (cfg idleController))"
    unfolding r by (simp_all add: c v hintMinSpeed_def)
  have f: "fst (calculateTarget idleController warmCPU coolGPU 2000) = 30"
    using t free unfolding r by simp
  show ?thesis
    by (intro conjI none one m(2) over fits step sum idle a n r rise free f)
qed

subsection \<open>Override\<close>

text \<open>
  C5: while an override is present, \<open>calculateTarget\<close> returns \<open>override.Speed\<close> as it is,
  whatever the hints and the limits of the configuration are, and leaves the controller
  as it was: \<open>currentZone\<close>, \<open>targetSpeed\<close>, \<open>lastOverThreshold\<close> and every other field.
\<close>

theorem calculateTarget_override_verbatim:
  assumes "override fc = Some ov"
  shows "fst (calculateTarget fc cpuReading gpuReading now) = Speed ov \<and>
    snd (calculateTarget fc cpuReading gpuReading now) = fc \<and>
    currentZone (snd (calculateTarget fc cpuReading gpuReading now)) = currentZone fc \<and>
    targetSpeed (snd (calculateTarget fc cpuReading gpuReading now)) = targetSpeed fc \<and>
    lastOverThreshold (snd (calculateTarget fc cpuReading gpuReading now))
      = lastOverThreshold fc"
  using assms by (simp add: calculateTarget_def)

text \<open>
  With the default limits (5 to 100) and a hint floor of 45, an override to 3 gives 3.
\<close>

theorem calculateTarget_override_verbatim_witness:
  "override overriddenController = Some slowOverride \<and>
   hintMinSpeed (hints overriddenController) = 45 \<and>
   MinSpeed (FanControl (cfg overriddenController)) = 5 \<and>
   fst (calculateTarget overriddenController coolCPU coolGPU 2000) = 3 \<and>
   snd (calculateTarget overriddenController coolCPU coolGPU 2000) = overriddenController"
proof -
  have ov: "override overriddenController = Some slowOverride"
    by (simp add: overriddenController_def)
  have "Speed slowOverride = 3"
    by (simp add: slowOverride_def)
  moreover have "hintMinSpeed (hints overriddenController) = 45"
    by (simp add: overriddenController_def hintMinSpeed_def highHint_def)
  moreover have "MinSpeed (FanControl (cfg overriddenController)) = 5"
    by (simp add: overriddenController_def NewFanController_def Default_def)
  ultimately show ?thesis
    using ov calculateTarget_override_verbatim [OF ov, of coolCPU coolGPU 2000] by simp
qed

subsection \<open>The below-threshold branch\<close>

lemma cooldownDuration_eq:
  assumes "int64 (CooldownDelay (FanControl c) * Second)"
  shows "cooldownDuration c =
     (if CooldownDelay (FanControl c) = 0 then 60 * Second
      else CooldownDelay (FanControl c) * Second)"
proof -
  have "go_mul (CooldownDelay (FanControl c)) Second = CooldownDelay (FanControl c) * Second"
    using assms by (simp add: go_mul_def wrap64_id)
  moreover have "go_mul 60 Second = 60 * Second"
    by (simp add: go_mul_def wrap64_def Second_def)
  ultimately show ?thesis
    by (simp add: cooldownDuration_def Second_def)
qed

text \<open>
  C3, as stated, fails in two ways, each without an override, below both thresholds, at
  speed 50 and with \<open>lastOverThreshold\<close> at second 1000.
  With \<open>cooldown_delay: 9999999999\<close> the product with \<open>time.Second\<close> at line 253 wraps
  around to a negative duration: at second 1010, ten seconds after the last breach and
  so within the configured delay, the target before the hint floor and the clamp is 40,
  not the 50 of \<open>currentSpeed\<close>.
  With \<open>step_size: -5\<close> and the default delay of 60 seconds the target at second 1061 is
  55: once the cooldown is over it rises, by 5 in every cycle.
\<close>

theorem calculateTarget_below_threshold_counterexample:
  "override longCooldownController = None \<and>
   \<not> overThreshold (cfg longCooldownController) (CPU_Max coolCPU) (GPU_Max coolGPU) \<and>
   \<not> IsZero (lastOverThreshold longCooldownController) \<and>
   CooldownDelay (FanControl (cfg longCooldownController)) = 9999999999 \<and>
   time_Sub (1010 * Second) (lastOverThreshold longCooldownController)
     \<le> CooldownDelay (FanControl (cfg longCooldownController)) * Second \<and>
   currentSpeed longCooldownController = 50 \<and>
   fst (rampTarget longCooldownController (CPU_Max coolCPU) (GPU_Max coolGPU) (1010 * Second))
     = 40 \<and>
   fst (calculateTarget longCooldownController coolCPU coolGPU (1010 * Second)) = 40 \<and>
   override negativeStepCoolingController = None \<and>
   \<not> overThreshold (cfg negativeStepCoolingController) (CPU_Max coolCPU) (GPU_Max coolGPU) \<and>
   \<not> IsZero (lastOverThreshold negativeStepCoolingController) \<and>
   time_Sub (1061 * Second) (lastOverThreshold negativeStepCoolingController)
     > cooldownDuration (cfg negativeStepCoolingController) \<and>
   currentSpeed negativeStepCoolingController = 50 \<and>
   fst (rampTarget negativeStepCoolingController (CPU_Max coolCPU) (GPU_Max coolGPU)
          (1061 * Second)) = 55 \<and>
   fst (calculateTarget negativeStepCoolingController coolCPU coolGPU (1061 * Second)) = 55"
proof -
  have m: "CPU_Max coolCPU = 42" "GPU_Max coolGPU = 0"
    by (simp_all add: coolCPU_def coolGPU_def)
  have lc: "cfg longCooldownController = longCooldown"
    "hints longCooldownController = []"
    "lastOverThreshold longCooldownController = 1000000000000"
    by (simp_all add: longCooldownController_def NewFanController_def Second_def)
  have lnone: "override longCooldownController = None"
    and lcur: "currentSpeed longCooldownController = 50"
    by (simp_all add: longCooldownController_def NewFanController_def)
  have lv: "cpuThreshold longCooldown = 65" "gpuThreshold longCooldown = 60"
    "baseSpeed longCooldown = 20" "stepSize longCooldown = 10"
    "MinSpeed (FanControl longCooldown) = 5" "MaxSpeed (FanControl longCooldown) = 100"
    by (simp_all add: cpuThreshold_def gpuThreshold_def baseSpeed_def stepSize_def
        longCooldown_def Default_def)
  have ldelay: "CooldownDelay (FanControl (cfg longCooldownController)) = 9999999999"
    by (simp add: lc longCooldown_def Default_def)
  have lbelow: "\<not> overThreshold (cfg longCooldownController) (CPU_Max coolCPU) (GPU_Max coolGPU)"
    by (simp add: lc lv m overThreshold_def)
  have lset: "\<not> IsZero (lastOverThreshold longCooldownController)"
    by (simp add: lc IsZero_def)
  have lwithin: "time_Sub (1010 * Second) (lastOverThreshold longCooldownController)
     \<le> CooldownDelay (FanControl (cfg longCooldownController)) * Second"
    by (simp add: ldelay lc(3) time_Sub_def Second_def)
  have lcd: "cooldownDuration longCooldown = - 8446744074709551616"
    by (simp add: cooldownDuration_def longCooldown_def Default_def go_mul_def wrap64_def
        Second_def)
  have lr: "fst (rampTarget longCooldownController (CPU_Max coolCPU) (GPU_Max coolGPU)
      (1010 * Second)) = 40"
    using lbelow lset
    by (simp add: rampTarget_def lc lcur lv lcd time_Sub_def go_sub_def wrap64_def Second_def
        Let_def)
  have lf: "fst (calculateTarget longCooldownController coolCPU coolGPU (1010 * Second)) = 40"
    unfolding calculateTarget_None [OF lnone] Let_def fst_conv lr
    by (simp add: lc lv hintMinSpeed_def)
  have nc: "cfg negativeStepCoolingController = negativeStep"
    "hints negativeStepCoolingController = []"
    "lastOverThreshold negativeStepCoolingController = 1000000000000"
    by (simp_all add: negativeStepCoolingController_def NewFanController_def Second_def)
  have nnone: "override negativeStepCoolingController = None"
    and ncur: "currentSpeed negativeStepCoolingController = 50"
    by (simp_all add: negativeStepCoolingController_def NewFanController_def)
  have nv: "cpuThreshold negativeStep = 65" "gpuThreshold negativeStep = 60"
    "baseSpeed negativeStep = 20" "stepSize negativeStep = - 5"
    "MinSpeed (FanControl negativeStep) = 5" "MaxSpeed (FanControl negativeStep) = 100"
    by (simp_all add: cpuThreshold_def gpuThreshold_def baseSpeed_def stepSize_def
        negativeStep_def Default_def)
  have ncd: "cooldownDuration negativeStep = 60000000000"
    by (simp add: cooldownDuration_def negativeStep_def Default_def go_mul_def wrap64_def
        Second_def)
  have nbelow: "\<not> overThreshold (cfg negativeStepCoolingController) (CPU_Max coolCPU)
      (GPU_Max coolGPU)"
    by (simp add: nc nv m overThreshold_def)
  have nset: "\<not> IsZero (lastOverThreshold negativeStepCoolingController)"
    by (simp add: nc IsZero_def)
  have nlate: "time_Sub (1061 * Second) (lastOverThreshold negativeStepCoolingController)
     > cooldownDuration (cfg negativeStepCoolingController)"
    by (simp add: nc ncd time_Sub_def Second_def)
  have nr: "fst (rampTarget negativeStepCoolingController (CPU_Max coolCPU) (GPU_Max coolGPU)
          (1061 * Second)) = 55"
    using nbelow nset
    by (simp add: rampTarget_def nc ncur nv ncd time_Sub_def go_sub_def wrap64_def Second_def
        Let_def)
  have nf: "fst (calculateTarget negativeStepCoolingController coolCPU coolGPU (1061 * Second))
      = 55"
    unfolding calculateTarget_None [OF nnone] Let_def fst_conv nr
    by (simp add: nc nv hintMinSpeed_def)
  show ?thesis
    by (intro conjI lnone lbelow lset ldelay lwithin lcur lr lf
        nnone nbelow nset nlate ncur nr nf)
qed

text \<open>
  C3, amended: in a call of \<open>calculateTarget\<close> without an override and with neither
  reading over its threshold, the target before the hint floor and the clamp is
  \<open>idleSpeed\<close> when \<open>lastOverThreshold\<close> is unset. When it is set, the target is
  \<open>currentSpeed\<close> while \<open>now - lastOverThreshold \<le> cooldown\<close>, and once
  \<open>now - lastOverThreshold > cooldown\<close> it is \<open>idleSpeed\<close> if
  \<open>currentSpeed \<le> idleSpeed\<close> and the larger of \<open>idleSpeed\<close> and
  \<open>currentSpeed - stepSize\<close> otherwise, so never below \<open>idleSpeed\<close>; when the configured
  \<open>StepSize\<close> is not negative and the subtraction does not overflow, the target is then
  lower than \<open>currentSpeed\<close> by at most \<open>stepSize\<close>, and is lower whenever \<open>currentSpeed\<close>
  is above \<open>idleSpeed\<close>. The cooldown is the 64-bit product of \<open>CooldownDelay\<close> and a
  second: \<open>CooldownDelay\<close> seconds (60 seconds when configured as 0) whenever that number
  of nanoseconds fits in 64 bits. The call leaves \<open>lastOverThreshold\<close> as it was, and the
  target returned is that value after the hint floor and the clamp.
\<close>

theorem calculateTarget_below_threshold:
  assumes none: "override fc = None"
    and below: "\<not> overThreshold (cfg fc) (CPU_Max cpuReading) (GPU_Max gpuReading)"
  shows
   "(IsZero (lastOverThreshold fc) \<longrightarrow>
       fst (rampTarget fc (CPU_Max cpuReading) (GPU_Max gpuReading) now) = baseSpeed (cfg fc)) \<and>
    (\<not> IsZero (lastOverThreshold fc) \<and>
     time_Sub now (lastOverThreshold fc) \<le> cooldownDuration (cfg fc) \<longrightarrow>
       fst (rampTarget fc (CPU_Max cpuReading) (GPU_Max gpuReading) now) = currentSpeed fc) \<and>
    (\<not> IsZero (lastOverThreshold fc) \<and>
     time_Sub now (lastOverThreshold fc) > cooldownDuration (cfg fc) \<longrightarrow>
       fst (rampTarget fc (CPU_Max cpuReading) (GPU_Max gpuReading) now) =
         (if currentSpeed fc > baseSpeed (cfg fc)
          then max (baseSpeed (cfg fc)) (go_sub (currentSpeed fc) (stepSize (cfg fc)))
          else baseSpeed (cfg fc)) \<and>
       baseSpeed (cfg fc) \<le> fst (rampTarget fc (CPU_Max cpuReading) (GPU_Max gpuReading) now)) \<and>
    (\<not> IsZero (lastOverThreshold fc) \<and>
     time_Sub now (lastOverThreshold fc) > cooldownDuration (cfg fc) \<and>
     0 \<le> StepSize (FanControl (cfg fc)) \<and>
     int64 (currentSpeed fc - stepSize (cfg fc)) \<longrightarrow>
       fst (rampTarget fc (CPU_Max cpuReading) (GPU_Max gpuReading) now) =
         (if currentSpeed fc > baseSpeed (cfg fc)
          then max (baseSpeed (cfg fc)) (currentSpeed fc - stepSize (cfg fc))
          else baseSpeed (cfg fc)) \<and>
       currentSpeed fc - fst (rampTarget fc (CPU_Max cpuReading) (GPU_Max gpuReading) now)
         \<le> stepSize (cfg fc) \<and>
       (baseSpeed (cfg fc) < currentSpeed fc \<longrightarrow>
          fst (rampTarget fc (CPU_Max cpuReading) (GPU_Max gpuReading) now) < currentSpeed fc)) \<and>
    (int64 (CooldownDelay (FanControl (cfg fc)) * Second) \<longrightarrow>
       cooldownDuration (cfg fc) =
         (if CooldownDelay (FanControl (cfg fc)) = 0 then 60 * Second
          else CooldownDelay (FanControl (cfg fc)) * Second)) \<and>
    lastOverThreshold (snd (calculateTarget fc cpuReading gpuReading now))
      = lastOverThreshold fc \<and>
    fst (calculateTarget fc cpuReading gpuReading now) =
      max (MinSpeed (FanControl (cfg fc)))
        (min (MaxSpeed (FanControl (cfg fc)))
           (max (hintMinSpeed (hints fc))
              (fst (rampTarget fc (CPU_Max cpuReading) (GPU_Max gpuReading) now))))"
proof -
  let ?r = "rampTarget fc (CPU_Max cpuReading) (GPU_Max gpuReading) now"
  have snap: "fst ?r = baseSpeed (cfg fc)"
    if "IsZero (lastOverThreshold fc)"
    using below that by (simp add: rampTarget_def Let_def)
  have hold: "fst ?r = currentSpeed fc"
    if "\<not> IsZero (lastOverThreshold fc) \<and>
        time_Sub now (lastOverThreshold fc) \<le> cooldownDuration (cfg fc)"
    using below that by (simp add: rampTarget_def Let_def)
  have down: "fst ?r =
         (if currentSpeed fc > baseSpeed (cfg fc)
          then max (baseSpeed (cfg fc)) (go_sub (currentSpeed fc) (stepSize (cfg fc)))
          else baseSpeed (cfg fc)) \<and>
       baseSpeed (cfg fc) \<le> fst ?r"
    if "\<not> IsZero (lastOverThreshold fc) \<and>
        time_Sub now (lastOverThreshold fc) > cooldownDuration (cfg fc)"
    using below that by (simp add: rampTarget_def Let_def max_def)
  have exact: "fst ?r =
         (if currentSpeed fc > baseSpeed (cfg fc)
          then max (baseSpeed (cfg fc)) (currentSpeed fc - stepSize (cfg fc))
          else baseSpeed (cfg fc)) \<and>
       currentSpeed fc - fst ?r \<le> stepSize (cfg fc) \<and>
       (baseSpeed (cfg fc) < currentSpeed fc \<longrightarrow> fst ?r < currentSpeed fc)"
    if h: "\<not> IsZero (lastOverThreshold fc) \<and>
        time_Sub now (lastOverThreshold fc) > cooldownDuration (cfg fc) \<and>
        0 \<le> StepSize (FanControl (cfg fc)) \<and>
        int64 (currentSpeed fc - stepSize (cfg fc))"
  proof -
    have pos: "0 < stepSize (cfg fc)"
      using h by (simp add: stepSize_pos)
    have sub: "go_sub (currentSpeed fc) (stepSize (cfg fc)) = currentSpeed fc - stepSize (cfg fc)"
      using h by (simp add: go_sub_def wrap64_id)
    have "fst ?r =
         (if currentSpeed fc > baseSpeed (cfg fc)
          then max (baseSpeed (cfg fc)) (currentSpeed fc - stepSize (cfg fc))
          else baseSpeed (cfg fc))"
      using down h unfolding sub by simp
    then show ?thesis
      using pos by (auto simp add: max_def)
  qed
  have cool: "cooldownDuration (cfg fc) =
         (if CooldownDelay (FanControl (cfg fc)) = 0 then 60 * Second
          else CooldownDelay (FanControl (cfg fc)) * Second)"
    if "int64 (CooldownDelay (FanControl (cfg fc)) * Second)"
    using that by (rule cooldownDuration_eq)
  have l: "snd ?r = lastOverThreshold fc"
    using below by (simp add: rampTarget_def Let_def)
  have anchor: "lastOverThreshold (snd (calculateTarget fc cpuReading gpuReading now))
      = lastOverThreshold fc"
    using none l by (simp add: calculateTarget_None Let_def)
  have final: "fst (calculateTarget fc cpuReading gpuReading now) =
      max (MinSpeed (FanControl (cfg fc)))
        (min (MaxSpeed (FanControl (cfg fc))) (max (hintMinSpeed (hints fc)) (fst ?r)))"
    using none by (simp add: calculateTarget_None Let_def)
  from snap hold down exact cool have
    "IsZero (lastOverThreshold fc) \<longrightarrow> fst ?r = baseSpeed (cfg fc)"
    "\<not> IsZero (lastOverThreshold fc) \<and>
     time_Sub now (lastOverThreshold fc) \<le> cooldownDuration (cfg fc) \<longrightarrow>
       fst ?r = currentSpeed fc"
    "\<not> IsZero (lastOverThreshold fc) \<and>
     time_Sub now (lastOverThreshold fc) > cooldownDuration (cfg fc) \<longrightarrow>
       fst ?r =
         (if currentSpeed fc > baseSpeed (cfg fc)
          then max (baseSpeed (cfg fc)) (go_sub (currentSpeed fc) (stepSize (cfg fc)))
          else baseSpeed (cfg fc)) \<and>
       baseSpeed (cfg fc) \<le> fst ?r"
    "\<not> IsZero (lastOverThreshold fc) \<and>
     time_Sub now (lastOverThreshold fc) > cooldownDuration (cfg fc) \<and>
     0 \<le> StepSize (FanControl (cfg fc)) \<and>
     int64 (currentSpeed fc - stepSize (cfg fc)) \<longrightarrow>
       fst ?r =
         (if currentSpeed fc > baseSpeed (cfg fc)
          then max (baseSpeed (cfg fc)) (currentSpeed fc - stepSize (cfg fc))
          else baseSpeed (cfg fc)) \<and>
       currentSpeed fc - fst ?r \<le> stepSize (cfg fc) \<and>
       (baseSpeed (cfg fc) < currentSpeed fc \<longrightarrow> fst ?r < currentSpeed fc)"
    "int64 (CooldownDelay (FanControl (cfg fc)) * Second) \<longrightarrow>
       cooldownDuration (cfg fc) =
         (if CooldownDelay (FanControl (cfg fc)) = 0 then 60 * Second
          else CooldownDelay (FanControl (cfg fc)) * Second)"
    by blast+
  then show ?thesis
    by (intro conjI anchor final)
qed

text \<open>
  At the default configuration (idle speed 20, step 10, cooldown 60 seconds) and speed
  50: never over a threshold, the target is 20; last over a threshold at second 1000, it
  is still 50 at second 1060 and is 40 one nanosecond later.
\<close>

theorem calculateTarget_below_threshold_witness:
  "override neverBreachedController = None \<and>
   \<not> overThreshold (cfg neverBreachedController) (CPU_Max coolCPU) (GPU_Max coolGPU) \<and>
   IsZero (lastOverThreshold neverBreachedController) \<and>
   fst (rampTarget neverBreachedController (CPU_Max coolCPU) (GPU_Max coolGPU) (2000 * Second))
     = 20 \<and>
   override coolingController = None \<and>
   \<not> overThreshold (cfg coolingController) (CPU_Max coolCPU) (GPU_Max coolGPU) \<and>
   \<not> IsZero (lastOverThreshold coolingController) \<and>
   int64 (CooldownDelay (FanControl (cfg coolingController)) * Second) \<and>
   cooldownDuration (cfg coolingController) = 60 * Second \<and>
   time_Sub (1060 * Second) (lastOverThreshold coolingController)
     \<le> cooldownDuration (cfg coolingController) \<and>
   fst (rampTarget coolingController (CPU_Max coolCPU) (GPU_Max coolGPU) (1060 * Second)) = 50 \<and>
   fst (calculateTarget coolingController coolCPU coolGPU (1060 * Second)) = 50 \<and>
   time_Sub (1060 * Second + 1) (lastOverThreshold coolingController)
     > cooldownDuration (cfg coolingController) \<and>
   0 \<le> StepSize (FanControl (cfg coolingController)) \<and>
   int64 (currentSpeed coolingController - stepSize (cfg coolingController)) \<and>
   baseSpeed (cfg coolingController) < currentSpeed coolingController \<and>
   fst (rampTarget coolingController (CPU_Max coolCPU) (GPU_Max coolGPU) (1060 * Second + 1))
     = 40"
proof -
  have c: "cfg neverBreachedController = Default" "cfg coolingController = Default"
    "lastOverThreshold neverBreachedController = 0"
    "lastOverThreshold coolingController = 1000 * Second"
    "currentSpeed coolingController = 50" "hints coolingController = []"
    by (simp_all add: neverBreachedController_def coolingController_def NewFanController_def)
  have v: "cpuThreshold Default = 65" "gpuThreshold Default = 60" "baseSpeed Default = 20"
    "stepSize Default = 10" "StepSize (FanControl Default) = 10"
    "CooldownDelay (FanControl Default) = 60"
    "MinSpeed (FanControl Default) = 5" "MaxSpeed (FanControl Default) = 100"
    by (simp_all add: cpuThreshold_def gpuThreshold_def baseSpeed_def stepSize_def Default_def)
  have m: "CPU_Max coolCPU = 42" "GPU_Max coolGPU = 0"
    by (simp_all add: coolCPU_def coolGPU_def)
  have n1: "override neverBreachedController = None"
    and n2: "override coolingController = None"
    by (simp_all add: neverBreachedController_def coolingController_def NewFanController_def)
  have b1: "\<not> overThreshold (cfg neverBreachedController) (CPU_Max coolCPU) (GPU_Max coolGPU)"
    and b2: "\<not> overThreshold (cfg coolingController) (CPU_Max coolCPU) (GPU_Max coolGPU)"
    by (simp_all add: c v m overThreshold_def)
  have z1: "IsZero (lastOverThreshold neverBreachedController)"
    and z2: "\<not> IsZero (lastOverThreshold coolingController)"
    by (simp_all add: c IsZero_def Second_def)
  have fits: "int64 (CooldownDelay (FanControl (cfg coolingController)) * Second)"
    by (simp add: c v int64_def Second_def)
  note n = calculateTarget_below_threshold [OF n1 b1, of "2000 * Second"]
  note k = calculateTarget_below_threshold [OF n2 b2, of "1060 * Second"]
  note l = calculateTarget_below_threshold [OF n2 b2, of "1060 * Second + 1"]
  have cd: "cooldownDuration (cfg coolingController) = 60 * Second"
    using l fits by (simp add: c v)
  have mid: "time_Sub (1060 * Second) (lastOverThreshold coolingController)
      \<le> cooldownDuration (cfg coolingController)"
    and late: "time_Sub (1060 * Second + 1) (lastOverThreshold coolingController)
      > cooldownDuration (cfg coolingController)"
    unfolding cd by (simp_all add: c time_Sub_def Second_def)
  have step: "0 \<le> StepSize (FanControl (cfg coolingController))"
    and sub: "int64 (currentSpeed coolingController - stepSize (cfg coolingController))"
    and above: "baseSpeed (cfg coolingController) < currentSpeed coolingController"
    by (simp_all add: c v int64_def)
  have "fst (rampTarget neverBreachedController (CPU_Max coolCPU) (GPU_Max coolGPU)
      (2000 * Second)) = 20"
    using n z1 by (simp add: c v)
  moreover have h: "fst (rampTarget coolingController (CPU_Max coolCPU) (GPU_Max coolGPU)
      (1060 * Second)) = 50"
    using k z2 mid by (simp add: c)
  moreover have "fst (calculateTarget coolingController coolCPU coolGPU (1060 * Second)) = 50"
    using k by (simp add: h c v hintMinSpeed_def)
  moreover have "fst (rampTarget coolingController (CPU_Max coolCPU) (GPU_Max coolGPU)
      (1060 * Second + 1)) = 40"
    using l z2 late step sub by (simp add: c v)
  ultimately show ?thesis
    using n1 n2 b1 b2 z1 z2 fits cd mid late step sub above by blast
qed

subsection \<open>Expiry of the override\<close>

lemma controlLoop_fst:
  "fst (controlLoop fc inp) =
     (snd (cycleDecision fc inp))\<lparr>currentSpeed := fst (cycleDecision fc inp)\<rparr>"
  by (simp add: controlLoop_def cycleDecision_def beforeDecision_def cycleCPU_def cycleGPU_def
      setFanSpeed_def Let_def case_prod_beta split: sum.splits)

lemma controlLoop_snd:
  "decidedOn (snd (controlLoop fc inp)) = (cycleCPU inp, cycleGPU inp)"
  "actuated (snd (controlLoop fc inp)) = fst (cycleDecision fc inp)"
  "recorded (snd (controlLoop fc inp)) =
     (CPU_Max (cycleCPU inp), GPU_Max (cycleGPU inp), fst (cycleDecision fc inp))"
  by (simp_all add: controlLoop_def cycleDecision_def beforeDecision_def cycleCPU_def
      cycleGPU_def setFanSpeed_def Let_def case_prod_beta split: sum.splits)

lemma cleanExpired_override:
  "override (cleanExpired fc now) =
     (case override fc of None \<Rightarrow> None
      | Some ov \<Rightarrow> if overrideExpired now ov then None else Some ov)"
  by (simp add: cleanExpired_def)

lemma trimHistory_override: "override (trimHistory fc now) = override fc"
  by (simp add: trimHistory_def Let_def)

lemma beforeDecision_override:
  "override (beforeDecision fc inp) = override (cleanExpired fc (nowClean inp))"
  by (simp add: beforeDecision_def cleanExpired_override trimHistory_override)

lemma calculateTarget_override: "override (snd (calculateTarget fc c g now)) = override fc"
  by (cases "override fc") (simp_all add: calculateTarget_None calculateTarget_Some Let_def)

lemma controlLoop_override:
  "override (fst (controlLoop fc inp)) = override (cleanExpired fc (nowClean inp))"
  by (simp add: controlLoop_fst cycleDecision_def calculateTarget_override
      beforeDecision_override)

lemma controlLoop_actuated_override:
  "override (cleanExpired fc (nowClean inp)) = Some ov \<Longrightarrow>
   actuated (snd (controlLoop fc inp)) = Speed ov"
  by (simp add: controlLoop_snd cycleDecision_def calculateTarget_Some beforeDecision_override)

lemma unexpiring_kept:
  "override fc = Some ov \<Longrightarrow> IsZero (OvExpiresAt ov) \<Longrightarrow>
   override (cleanExpired fc now) = Some ov"
  by (simp add: cleanExpired_override overrideExpired_def)

lemma unexpiring_cycles:
  "override fc = Some ov \<Longrightarrow> IsZero (OvExpiresAt ov) \<Longrightarrow>
   cycleTargets fc inps = replicate (length inps) (Speed ov) \<and>
   override (runCycles fc inps) = Some ov"
proof (induction inps arbitrary: fc)
  case Nil
  then show ?case by simp
next
  case (Cons inp inps)
  have kept: "override (cleanExpired fc (nowClean inp)) = Some ov"
    using Cons.prems by (rule unexpiring_kept)
  then have next_ov: "override (fst (controlLoop fc inp)) = Some ov"
    by (simp add: controlLoop_override)
  have "actuated (snd (controlLoop fc inp)) = Speed ov"
    using kept by (rule controlLoop_actuated_override)
  then show ?case
    using Cons.IH [OF next_ov Cons.prems(2)] by simp
qed

text \<open>
  A cycle reads the controller it starts from only through \<open>beforeDecision\<close>, and
  \<open>beforeDecision\<close> leaves alone what \<open>rampTarget\<close> reads.
\<close>

lemma controlLoop_cong:
  "beforeDecision fc inp = beforeDecision fc' inp \<Longrightarrow> controlLoop fc inp = controlLoop fc' inp"
  by (simp add: controlLoop_def beforeDecision_def cycleCPU_def cycleGPU_def Let_def
      case_prod_beta split: sum.splits)

lemma beforeDecision_hints:
  "hints (beforeDecision fc inp) = hints (cleanExpired fc (nowClean inp))"
  by (simp add: beforeDecision_def cleanExpired_def trimHistory_def Let_def)

lemma beforeDecision_cfg: "cfg (beforeDecision fc inp) = cfg fc"
  by (simp add: beforeDecision_def cleanExpired_def trimHistory_def Let_def)

lemma rampTarget_beforeDecision:
  "rampTarget (beforeDecision fc inp) cpuMax gpuMax now = rampTarget fc cpuMax gpuMax now"
  by (simp add: rampTarget_def beforeDecision_def cleanExpired_def trimHistory_def Let_def)

lemma beforeDecision_expired:
  assumes "0 < dur" and "0 \<le> nowExpiry" and "nowExpiry + dur < nowClean inp"
  shows "beforeDecision (SetOverride fc speed dur reason nowCreated nowExpiry) inp =
    beforeDecision (ClearOverride fc) inp"
  using assms
  by (simp add: beforeDecision_def SetOverride_def ClearOverride_def cleanExpired_def
      trimHistory_def overrideExpired_def Before_def IsZero_def time_Add_def Let_def)

lemma controlLoop_actuated_None:
  assumes "override (cleanExpired fc (nowClean inp)) = None"
  shows "actuated (snd (controlLoop fc inp)) =
    max (MinSpeed (FanControl (cfg fc)))
      (min (MaxSpeed (FanControl (cfg fc)))
         (max (hintMinSpeed (hints (cleanExpired fc (nowClean inp))))
            (fst (rampTarget fc (CPU_Max (cycleCPU inp)) (GPU_Max (cycleGPU inp))
               (nowDecide inp)))))"
proof -
  have "override (beforeDecision fc inp) = None"
    using assms by (simp add: beforeDecision_override)
  then show ?thesis
    by (simp add: controlLoop_snd cycleDecision_def calculateTarget_None Let_def
        beforeDecision_hints beforeDecision_cfg rampTarget_beforeDecision)
qed

text \<open>
  C4: \<open>SetOverride\<close> with a duration \<open>\<le> 0\<close> stores an override whose \<open>ExpiresAt\<close> is the
  zero time; \<open>cleanExpired\<close> keeps it at every time, so over any sequence of cycles every
  target is the override's speed and the override is still there. With a duration
  \<open>d > 0\<close> it stores \<open>ExpiresAt = now + d\<close>; \<open>cleanExpired\<close> keeps the override while the
  time is not past \<open>ExpiresAt\<close> and, run at a time past it (the clock reading \<open>now\<close> being
  not before the zero time), removes it: the controller is then the one it would be had
  the override been cleared, and so is every decision. So for a whole cycle: one whose
  eviction runs at a time not past \<open>ExpiresAt\<close> hands the override's speed to
  \<open>setFanSpeed\<close> and keeps the override; one whose eviction runs past \<open>ExpiresAt\<close> is,
  in the controller it leaves and in everything it puts out, the cycle of the controller
  whose override was cleared: the override is gone, and the speed handed to
  \<open>setFanSpeed\<close> is the one of the threshold and hysteresis logic (\<open>rampTarget\<close>, then the
  floor of the hints left, then the clamp).
\<close>

theorem SetOverride_expiry:
  "(dur \<le> 0 \<longrightarrow>
      override (SetOverride fc speed dur reason nowCreated nowExpiry) =
        Some \<lparr>Speed = speed, Reason = reason, OvExpiresAt = 0, OvCreatedAt = nowCreated\<rparr> \<and>
      (\<forall>now. override (cleanExpired (SetOverride fc speed dur reason nowCreated nowExpiry) now) =
         override (SetOverride fc speed dur reason nowCreated nowExpiry)) \<and>
      (\<forall>inps. cycleTargets (SetOverride fc speed dur reason nowCreated nowExpiry) inps =
         replicate (length inps) speed \<and>
         override (runCycles (SetOverride fc speed dur reason nowCreated nowExpiry) inps) =
           override (SetOverride fc speed dur reason nowCreated nowExpiry))) \<and>
   (0 < dur \<longrightarrow>
      override (SetOverride fc speed dur reason nowCreated nowExpiry) =
        Some \<lparr>Speed = speed, Reason = reason, OvExpiresAt = nowExpiry + dur,
              OvCreatedAt = nowCreated\<rparr> \<and>
      (\<forall>now. now \<le> nowExpiry + dur \<longrightarrow>
         override (cleanExpired (SetOverride fc speed dur reason nowCreated nowExpiry) now) =
           override (SetOverride fc speed dur reason nowCreated nowExpiry)) \<and>
      (\<forall>now. 0 \<le> nowExpiry \<and> nowExpiry + dur < now \<longrightarrow>
         override (cleanExpired (SetOverride fc speed dur reason nowCreated nowExpiry) now)
           = None \<and>
         cleanExpired (SetOverride fc speed dur reason nowCreated nowExpiry) now =
           cleanExpired (ClearOverride fc) now \<and>
         (\<forall>cpuReading gpuReading t.
            calculateTarget
              (cleanExpired (SetOverride fc speed dur reason nowCreated nowExpiry) now)
              cpuReading gpuReading t =
            calculateTarget (cleanExpired (ClearOverride fc) now) cpuReading gpuReading t)) \<and>
      (\<forall>inp. nowClean inp \<le> nowExpiry + dur \<longrightarrow>
         actuated (snd (controlLoop (SetOverride fc speed dur reason nowCreated nowExpiry) inp))
           = speed \<and>
         override (fst (controlLoop (SetOverride fc speed dur reason nowCreated nowExpiry) inp))
           = override (SetOverride fc speed dur reason nowCreated nowExpiry)) \<and>
      (\<forall>inp. 0 \<le> nowExpiry \<and> nowExpiry + dur < nowClean inp \<longrightarrow>
         controlLoop (SetOverride fc speed dur reason nowCreated nowExpiry) inp =
           controlLoop (ClearOverride fc) inp \<and>
         override (fst (controlLoop (SetOverride fc speed dur reason nowCreated nowExpiry) inp))
           = None \<and>
         actuated (snd (controlLoop (SetOverride fc speed dur reason nowCreated nowExpiry) inp))
           = max (MinSpeed (FanControl (cfg fc)))
               (min (MaxSpeed (FanControl (cfg fc)))
                  (max (hintMinSpeed (hints (cleanExpired fc (nowClean inp))))
                     (fst (rampTarget fc (CPU_Max (cycleCPU inp)) (GPU_Max (cycleGPU inp))
                        (nowDecide inp)))))))"
proof (intro conjI impI allI)
  assume d: "dur \<le> 0"
  let ?fc = "SetOverride fc speed dur reason nowCreated nowExpiry"
  let ?ov = "\<lparr>Speed = speed, Reason = reason, OvExpiresAt = 0, OvCreatedAt = nowCreated\<rparr>"
  show ov: "override ?fc = Some ?ov"
    using d by (simp add: SetOverride_def)
  have z: "IsZero (OvExpiresAt ?ov)"
    by (simp add: IsZero_def)
  show "override (cleanExpired ?fc now) = override ?fc" for now
    using unexpiring_kept [OF ov z] ov by simp
  show "cycleTargets ?fc inps = replicate (length inps) speed" for inps
    using unexpiring_cycles [OF ov z, of inps] by simp
  show "override (runCycles ?fc inps) = override ?fc" for inps
    using unexpiring_cycles [OF ov z, of inps] ov by simp
next
  assume d: "0 < dur"
  let ?fc = "SetOverride fc speed dur reason nowCreated nowExpiry"
  show "override ?fc = Some \<lparr>Speed = speed, Reason = reason, OvExpiresAt = nowExpiry + dur,
              OvCreatedAt = nowCreated\<rparr>"
    using d by (simp add: SetOverride_def time_Add_def)
next
  fix now
  assume d: "0 < dur" and n: "now \<le> nowExpiry + dur"
  then show "override (cleanExpired (SetOverride fc speed dur reason nowCreated nowExpiry) now) =
      override (SetOverride fc speed dur reason nowCreated nowExpiry)"
    by (simp add: SetOverride_def cleanExpired_def overrideExpired_def Before_def time_Add_def)
next
  fix now
  assume d: "0 < dur" and n: "0 \<le> nowExpiry \<and> nowExpiry + dur < now"
  then show "override (cleanExpired (SetOverride fc speed dur reason nowCreated nowExpiry) now)
      = None"
    by (simp add: SetOverride_def cleanExpired_def overrideExpired_def Before_def IsZero_def
        time_Add_def)
  from d n show e: "cleanExpired (SetOverride fc speed dur reason nowCreated nowExpiry) now =
      cleanExpired (ClearOverride fc) now"
    by (simp add: SetOverride_def ClearOverride_def cleanExpired_def overrideExpired_def
        Before_def IsZero_def time_Add_def)
  show "calculateTarget (cleanExpired (SetOverride fc speed dur reason nowCreated nowExpiry) now)
          cpuReading gpuReading t =
        calculateTarget (cleanExpired (ClearOverride fc) now) cpuReading gpuReading t"
    for cpuReading gpuReading t
    by (simp only: e)
next
  fix inp :: CycleInput
  assume d: "0 < dur" and n: "nowClean inp \<le> nowExpiry + dur"
  let ?fc = "SetOverride fc speed dur reason nowCreated nowExpiry"
  let ?ov = "\<lparr>Speed = speed, Reason = reason, OvExpiresAt = nowExpiry + dur,
    OvCreatedAt = nowCreated\<rparr>"
  have ov: "override ?fc = Some ?ov"
    using d by (simp add: SetOverride_def time_Add_def)
  have kept: "override (cleanExpired ?fc (nowClean inp)) = Some ?ov"
    using n by (simp add: cleanExpired_override ov overrideExpired_def Before_def)
  show "actuated (snd (controlLoop ?fc inp)) = speed"
    using controlLoop_actuated_override [OF kept] by simp
  show "override (fst (controlLoop ?fc inp)) = override ?fc"
    by (simp only: controlLoop_override kept ov)
next
  fix inp :: CycleInput
  assume d: "0 < dur" and n: "0 \<le> nowExpiry \<and> nowExpiry + dur < nowClean inp"
  let ?fc = "SetOverride fc speed dur reason nowCreated nowExpiry"
  have b: "beforeDecision ?fc inp = beforeDecision (ClearOverride fc) inp"
    using d n by (intro beforeDecision_expired) simp_all
  show same: "controlLoop ?fc inp = controlLoop (ClearOverride fc) inp"
    using b by (rule controlLoop_cong)
  have gone: "override (cleanExpired (ClearOverride fc) (nowClean inp)) = None"
    by (simp add: cleanExpired_override ClearOverride_def)
  show "override (fst (controlLoop ?fc inp)) = None"
    unfolding same by (simp only: controlLoop_override gone)
  have h: "hints (cleanExpired (ClearOverride fc) (nowClean inp)) =
      hints (cleanExpired fc (nowClean inp))"
    by (simp add: cleanExpired_def ClearOverride_def)
  have r: "rampTarget (ClearOverride fc) cpuMax gpuMax t = rampTarget fc cpuMax gpuMax t"
    for cpuMax gpuMax t
    by (simp add: rampTarget_def ClearOverride_def Let_def)
  have c: "cfg (ClearOverride fc) = cfg fc"
    by (simp add: ClearOverride_def)
  show "actuated (snd (controlLoop ?fc inp)) =
      max (MinSpeed (FanControl (cfg fc)))
        (min (MaxSpeed (FanControl (cfg fc)))
           (max (hintMinSpeed (hints (cleanExpired fc (nowClean inp))))
              (fst (rampTarget fc (CPU_Max (cycleCPU inp)) (GPU_Max (cycleGPU inp))
                 (nowDecide inp)))))"
    unfolding same controlLoop_actuated_None [OF gone] h r c by (rule refl)
qed

text \<open>
  An override to 50 set at second 1000: without a duration it gives 50 in a cycle with a
  hot CPU and in a cycle whose reads fail; with a duration of 5 seconds it is kept by an
  eviction at second 1005 and removed by one a nanosecond later. With that duration, the
  cycle at second 1003 (CPU at 90) hands 50 to \<open>setFanSpeed\<close> and keeps the override;
  the cycle at second 2000 (CPU at 90) is the cycle of the controller without an
  override, leaves no override and hands over 30, one step above the idle speed.
\<close>

theorem SetOverride_expiry_witness:
  "override (SetOverride idleController 50 0 ''quiet'' (1000 * Second) (1000 * Second)) =
     Some \<lparr>Speed = 50, Reason = ''quiet'', OvExpiresAt = 0, OvCreatedAt = 1000 * Second\<rparr> \<and>
   cycleTargets (SetOverride idleController 50 0 ''quiet'' (1000 * Second) (1000 * Second))
     [hotCycle, failedCycle] = [50, 50] \<and>
   override (SetOverride idleController 50 (5 * Second) ''quiet'' (1000 * Second) (1000 * Second)) =
     Some \<lparr>Speed = 50, Reason = ''quiet'', OvExpiresAt = 1005 * Second,
           OvCreatedAt = 1000 * Second\<rparr> \<and>
   override (cleanExpired
     (SetOverride idleController 50 (5 * Second) ''quiet'' (1000 * Second) (1000 * Second))
     (1005 * Second)) =
     Some \<lparr>Speed = 50, Reason = ''quiet'', OvExpiresAt = 1005 * Second,
           OvCreatedAt = 1000 * Second\<rparr> \<and>
   override (cleanExpired
     (SetOverride idleController 50 (5 * Second) ''quiet'' (1000 * Second) (1000 * Second))
     (1005 * Second + 1)) = None \<and>
   actuated (snd (controlLoop
     (SetOverride idleController 50 (5 * Second) ''quiet'' (1000 * Second) (1000 * Second))
     earlyCycle)) = 50 \<and>
   override (fst (controlLoop
     (SetOverride idleController 50 (5 * Second) ''quiet'' (1000 * Second) (1000 * Second))
     earlyCycle)) =
     Some \<lparr>Speed = 50, Reason = ''quiet'', OvExpiresAt = 1005 * Second,
           OvCreatedAt = 1000 * Second\<rparr> \<and>
   controlLoop
     (SetOverride idleController 50 (5 * Second) ''quiet'' (1000 * Second) (1000 * Second))
     hotCycle = controlLoop (ClearOverride idleController) hotCycle \<and>
   override (fst (controlLoop
     (SetOverride idleController 50 (5 * Second) ''quiet'' (1000 * Second) (1000 * Second))
     hotCycle)) = None \<and>
   actuated (snd (controlLoop
     (SetOverride idleController 50 (5 * Second) ''quiet'' (1000 * Second) (1000 * Second))
     hotCycle)) = 30"
proof -
  note never = SetOverride_expiry [where dur = 0 and fc = idleController and speed = 50
      and reason = "''quiet''" and nowCreated = "1000 * Second" and nowExpiry = "1000 * Second"]
  note timed = SetOverride_expiry [where dur = "5 * Second" and fc = idleController
      and speed = 50 and reason = "''quiet''" and nowCreated = "1000 * Second"
      and nowExpiry = "1000 * Second"]
  have d0: "(0::int) \<le> 0" and d5: "0 < 5 * Second" and t: "0 \<le> 1000 * Second"
    and s: "1000 * Second + 5 * Second = 1005 * Second"
    and k: "1005 * Second \<le> 1000 * Second + 5 * Second"
    and p: "1000 * Second + 5 * Second < 1005 * Second + 1"
    by (simp_all add: Second_def)
  have a: "override (SetOverride idleController 50 0 ''quiet'' (1000 * Second) (1000 * Second)) =
     Some \<lparr>Speed = 50, Reason = ''quiet'', OvExpiresAt = 0, OvCreatedAt = 1000 * Second\<rparr>"
    using never d0 by blast
  have "cycleTargets (SetOverride idleController 50 0 ''quiet'' (1000 * Second) (1000 * Second))
     [hotCycle, failedCycle] = replicate (length [hotCycle, failedCycle]) 50"
    using never d0 by blast
  then have b: "cycleTargets
     (SetOverride idleController 50 0 ''quiet'' (1000 * Second) (1000 * Second))
     [hotCycle, failedCycle] = [50, 50]"
    by (simp add: numeral_2_eq_2)
  have c: "override
     (SetOverride idleController 50 (5 * Second) ''quiet'' (1000 * Second) (1000 * Second)) =
     Some \<lparr>Speed = 50, Reason = ''quiet'', OvExpiresAt = 1005 * Second,
           OvCreatedAt = 1000 * Second\<rparr>"
    using timed d5 unfolding s by blast
  have "override (cleanExpired
     (SetOverride idleController 50 (5 * Second) ''quiet'' (1000 * Second) (1000 * Second))
     (1005 * Second)) =
     override (SetOverride idleController 50 (5 * Second) ''quiet'' (1000 * Second)
       (1000 * Second))"
    using timed d5 k by blast
  then have d: "override (cleanExpired
     (SetOverride idleController 50 (5 * Second) ''quiet'' (1000 * Second) (1000 * Second))
     (1005 * Second)) =
     Some \<lparr>Speed = 50, Reason = ''quiet'', OvExpiresAt = 1005 * Second,
           OvCreatedAt = 1000 * Second\<rparr>"
    by (simp only: c)
  have e: "override (cleanExpired
     (SetOverride idleController 50 (5 * Second) ''quiet'' (1000 * Second) (1000 * Second))
     (1005 * Second + 1)) = None"
    using timed d5 t p by blast
  let ?timed = "SetOverride idleController 50 (5 * Second) ''quiet'' (1000 * Second)
    (1000 * Second)"
  note half = timed [THEN conjunct2, THEN mp, OF d5]
  note unexpired = half [THEN conjunct2, THEN conjunct2, THEN conjunct2, THEN conjunct1,
      rule_format]
  note expired = half [THEN conjunct2, THEN conjunct2, THEN conjunct2, THEN conjunct2,
      rule_format]
  have ke: "nowClean earlyCycle \<le> 1000 * Second + 5 * Second"
    by (simp add: earlyCycle_def Second_def)
  have kh: "0 \<le> 1000 * Second \<and> 1000 * Second + 5 * Second < nowClean hotCycle"
    by (simp add: hotCycle_def Second_def)
  have f: "actuated (snd (controlLoop ?timed earlyCycle)) = 50"
    using unexpired [OF ke] by (rule conjunct1)
  have "override (fst (controlLoop ?timed earlyCycle)) = override ?timed"
    using unexpired [OF ke] by (rule conjunct2)
  then have g: "override (fst (controlLoop ?timed earlyCycle)) =
     Some \<lparr>Speed = 50, Reason = ''quiet'', OvExpiresAt = 1005 * Second,
           OvCreatedAt = 1000 * Second\<rparr>"
    by (simp only: c)
  have h: "controlLoop ?timed hotCycle = controlLoop (ClearOverride idleController) hotCycle"
    using expired [OF kh] by (rule conjunct1)
  have i: "override (fst (controlLoop ?timed hotCycle)) = None"
    using expired [OF kh] by (rule conjunct2 [THEN conjunct1])
  have v: "cfg idleController = Default" "currentSpeed idleController = 20"
    "hints (cleanExpired idleController (nowClean hotCycle)) = []"
    "cpuThreshold Default = 65" "gpuThreshold Default = 60" "baseSpeed Default = 20"
    "stepSize Default = 10" "MinSpeed (FanControl Default) = 5"
    "MaxSpeed (FanControl Default) = 100"
    "CPU_Max (cycleCPU hotCycle) = 90" "GPU_Max (cycleGPU hotCycle) = 0"
    by (simp_all add: idleController_def NewFanController_def cleanExpired_def
        cpuThreshold_def gpuThreshold_def baseSpeed_def stepSize_def Default_def
        cycleCPU_def cycleGPU_def hotCycle_def coolGPU_def)
  have n: "neededSpeed Default 90 0 = 80"
    by (simp add: neededSpeed_def v go_sub_def go_add_def go_mul_def go_quot_def wrap64_def
        Let_def)
  have r: "fst (rampTarget idleController 90 0 (nowDecide hotCycle)) = 30"
    by (simp add: rampTarget_def v n overThreshold_def go_add_def wrap64_def Let_def)
  have j: "actuated (snd (controlLoop ?timed hotCycle)) = 30"
    unfolding expired [OF kh, THEN conjunct2, THEN conjunct2] v r
    by (simp add: hintMinSpeed_def)
  show ?thesis
    by (intro conjI a b c d e f g h i j)
qed

subsection \<open>The trend estimator\<close>

lemma go_quot_rem: "b * go_quot a b + go_rem a b = a"
  by (simp add: go_rem_def)

lemma Minutes_eq: "Minutes d = real_of_int d / 60000000000"
proof -
  have "real_of_int d = real_of_int (Minute * go_quot d Minute + go_rem d Minute)"
    by (simp only: go_quot_rem)
  also have "\<dots> = 60000000000 * real_of_int (go_quot d Minute) + real_of_int (go_rem d Minute)"
    by (simp add: Minute_def Second_def)
  finally show ?thesis
    by (simp add: Minutes_def field_simps)
qed

lemma Minutes_short: "Minutes d < 1 / 10 \<longleftrightarrow> d < 6 * Second"
proof -
  have "Minutes d < 1 / 10 \<longleftrightarrow> real_of_int d < 6000000000"
    by (simp add: Minutes_eq field_simps)
  also have "\<dots> \<longleftrightarrow> d < 6000000000"
    by linarith
  finally show ?thesis
    by (simp add: Second_def)
qed

lemma recentPoints_eq:
  "recentPoints history now = filter (\<lambda>p. now - 60 * Second < timestamp p) history"
  by (simp add: recentPoints_def After_def time_Add_def)

text \<open>
  C6: the samples that count are those later than \<open>now\<close> minus 60 seconds.
  \<open>calculateTrend\<close> is 0 when fewer than two of them are left, and 0 when the last of
  them is less than 6 seconds after the first; otherwise it is the difference of their
  temperatures divided by the minutes between them. On the history
  \<open>{(40, t0), (46, t0 + 30s)}\<close>, both samples inside the window, it is 12; on a history
  of one sample it is 0. (Real arithmetic stands for the program's \<open>float64\<close>.)
\<close>

theorem calculateTrend_window:
  "recentPoints history now = filter (\<lambda>p. now - 60 * Second < timestamp p) history \<and>
   calculateTrend history now =
     (if length (recentPoints history now) < 2 then 0
      else if timestamp (last (recentPoints history now))
                - timestamp (hd (recentPoints history now)) < 6 * Second then 0
      else real_of_int (temp (last (recentPoints history now))
                         - temp (hd (recentPoints history now)))
           / (real_of_int (timestamp (last (recentPoints history now))
                            - timestamp (hd (recentPoints history now)))
              / real_of_int Minute)) \<and>
   (now - 60 * Second < t0 \<longrightarrow> calculateTrend (twoSamples t0) now = 12) \<and>
   calculateTrend [p] now = 0"
proof (intro conjI impI)
  show "recentPoints history now = filter (\<lambda>p. now - 60 * Second < timestamp p) history"
    by (rule recentPoints_eq)
next
  let ?r = "recentPoints history now"
  show "calculateTrend history now =
     (if length ?r < 2 then 0
      else if timestamp (last ?r) - timestamp (hd ?r) < 6 * Second then 0
      else real_of_int (temp (last ?r) - temp (hd ?r))
           / (real_of_int (timestamp (last ?r) - timestamp (hd ?r)) / real_of_int Minute))"
  proof (cases "length ?r < 2")
    case True
    then show ?thesis by (simp add: calculateTrend_def Let_def)
  next
    case False
    then have ne: "?r \<noteq> []" by auto
    have "length ?r \<le> length history"
      by (simp add: recentPoints_def)
    with False have h: "\<not> length history < 2" by simp
    have f: "?r ! 0 = hd ?r" and l: "?r ! (length ?r - 1) = last ?r"
      using ne by (simp_all add: hd_conv_nth last_conv_nth)
    have "calculateTrend history now =
        (if Minutes (timestamp (last ?r) - timestamp (hd ?r)) < 1 / 10 then 0
         else real_of_int (temp (last ?r) - temp (hd ?r))
              / Minutes (timestamp (last ?r) - timestamp (hd ?r)))"
      unfolding calculateTrend_def Let_def f l time_Sub_def using False h by simp
    also have "\<dots> =
        (if timestamp (last ?r) - timestamp (hd ?r) < 6 * Second then 0
         else real_of_int (temp (last ?r) - temp (hd ?r))
              / (real_of_int (timestamp (last ?r) - timestamp (hd ?r)) / real_of_int Minute))"
      unfolding Minutes_short by (simp add: Minutes_eq Minute_def Second_def)
    finally show ?thesis
      using False by simp
  qed
next
  assume w: "now - 60 * Second < t0"
  then have "recentPoints (twoSamples t0) now = twoSamples t0"
    by (simp add: recentPoints_eq twoSamples_def Second_def)
  then show "calculateTrend (twoSamples t0) now = 12"
    by (simp add: calculateTrend_def Let_def Minutes_eq time_Sub_def)
      (simp add: twoSamples_def Second_def)
next
  show "calculateTrend [p] now = 0"
    by (simp add: calculateTrend_def)
qed

text \<open>Samples at seconds 1000 and 1030, read at second 1040.\<close>

theorem calculateTrend_window_witness:
  "1040 * Second - 60 * Second < 1000 * Second \<and>
   calculateTrend (twoSamples (1000 * Second)) (1040 * Second) = 12 \<and>
   calculateTrend [\<lparr>temp = 40, timestamp = 1000 * Second\<rparr>] (1040 * Second) = 0"
proof -
  have w: "1040 * Second - 60 * Second < 1000 * Second"
    by (simp add: Second_def)
  note t = calculateTrend_window [where now = "1040 * Second" and ?t0.0 = "1000 * Second"
      and p = "\<lparr>temp = 40, timestamp = 1000 * Second\<rparr>"]
  from t w show ?thesis
    by blast
qed

subsection \<open>Adding and removing a hint\<close>

text \<open>
  C7, as stated, fails when the source already has a hint: in a controller that holds a
  high-intensity hint of the source \<open>whisper\<close>, \<open>AddHint\<close> of a low-intensity hint of the
  same source followed by \<open>RemoveHint\<close> leaves no hint, and the next target is 20 where
  it was 45.
\<close>

theorem AddHint_RemoveHint_counterexample:
  "hints (RemoveHint (AddHint hintedController lowHint 2000) (Source lowHint))
     \<noteq> hints hintedController \<and>
   fst (calculateTarget (RemoveHint (AddHint hintedController lowHint 2000) (Source lowHint))
          coolCPU coolGPU 3000) = 20 \<and>
   fst (calculateTarget hintedController coolCPU coolGPU 3000) = 45"
  by (simp add: RemoveHint_def AddHint_def hintedController_def lowHint_def highHint_def
      NewFanController_def calculateTarget_def rampTarget_def overThreshold_def
      cpuThreshold_def gpuThreshold_def baseSpeed_def hintMinSpeed_def IsZero_def
      coolCPU_def coolGPU_def Default_def Let_def)

lemma RemoveHint_AddHint:
  "RemoveHint (AddHint fc hint now) (Source hint) = RemoveHint fc (Source hint)"
  by (simp add: RemoveHint_def AddHint_def delete_update_same)

lemma RemoveHint_absent: "source \<notin> fst ` set (hints fc) \<Longrightarrow> RemoveHint fc source = fc"
  by (simp add: RemoveHint_def)

text \<open>
  C7, amended: \<open>AddHint\<close> followed by \<open>RemoveHint\<close> for the same source leaves the
  controller that \<open>RemoveHint\<close> alone leaves: the registry without an entry of that
  source. When the source had no hint before, the controller is as it was, so a decision
  gives the target and the state it gives with no hint ever added. \<open>RemoveHint\<close> is
  idempotent, and for a source without a hint it changes nothing.
\<close>

theorem AddHint_RemoveHint:
  "hints (RemoveHint (AddHint fc hint now) (Source hint)) = AList.delete (Source hint) (hints fc) \<and>
   RemoveHint (AddHint fc hint now) (Source hint) = RemoveHint fc (Source hint) \<and>
   (Source hint \<notin> fst ` set (hints fc) \<longrightarrow>
      RemoveHint (AddHint fc hint now) (Source hint) = fc \<and>
      calculateTarget (RemoveHint (AddHint fc hint now) (Source hint)) cpuReading gpuReading t =
        calculateTarget fc cpuReading gpuReading t) \<and>
   RemoveHint (RemoveHint fc source) source = RemoveHint fc source \<and>
   (source \<notin> fst ` set (hints fc) \<longrightarrow> RemoveHint fc source = fc)"
proof (intro conjI impI)
  show "hints (RemoveHint (AddHint fc hint now) (Source hint)) = AList.delete (Source hint) (hints fc)"
    by (simp add: RemoveHint_AddHint) (simp add: RemoveHint_def)
  show "RemoveHint (AddHint fc hint now) (Source hint) = RemoveHint fc (Source hint)"
    by (rule RemoveHint_AddHint)
  show "RemoveHint (RemoveHint fc source) source = RemoveHint fc source"
    by (simp add: RemoveHint_def delete_idem)
next
  assume a: "Source hint \<notin> fst ` set (hints fc)"
  then show e: "RemoveHint (AddHint fc hint now) (Source hint) = fc"
    by (simp add: RemoveHint_AddHint RemoveHint_absent)
  show "calculateTarget (RemoveHint (AddHint fc hint now) (Source hint)) cpuReading gpuReading t =
        calculateTarget fc cpuReading gpuReading t"
    by (simp only: e)
next
  assume "source \<notin> fst ` set (hints fc)"
  then show "RemoveHint fc source = fc"
    by (rule RemoveHint_absent)
qed

text \<open>
  In a controller without hints, adding and removing \<open>lowHint\<close> changes nothing; in the
  controller that holds \<open>highHint\<close> of the same source, it empties the registry.
\<close>

theorem AddHint_RemoveHint_witness:
  "Source lowHint \<notin> fst ` set (hints idleController) \<and>
   RemoveHint (AddHint idleController lowHint 2000) (Source lowHint) = idleController \<and>
   calculateTarget (RemoveHint (AddHint idleController lowHint 2000) (Source lowHint))
     coolCPU coolGPU 3000 = calculateTarget idleController coolCPU coolGPU 3000 \<and>
   hints (RemoveHint (AddHint hintedController lowHint 2000) (Source lowHint)) = [] \<and>
   RemoveHint idleController ''whisper'' = idleController"
proof -
  have a: "Source lowHint \<notin> fst ` set (hints idleController)"
    by (simp add: idleController_def NewFanController_def)
  have b: "''whisper'' \<notin> fst ` set (hints idleController)"
    by (simp add: idleController_def NewFanController_def)
  have c: "AList.delete (Source lowHint) (hints hintedController) = []"
    by (simp add: hintedController_def lowHint_def)
  note idle = AddHint_RemoveHint
    [of idleController lowHint 2000 coolCPU coolGPU 3000 "''whisper''"]
  note hinted = AddHint_RemoveHint
    [of hintedController lowHint 2000 coolCPU coolGPU 3000 "''whisper''"]
  have d: "hints (RemoveHint (AddHint hintedController lowHint 2000) (Source lowHint)) = []"
    by (rule trans [OF hinted [THEN conjunct1] c])
  from idle a b d show ?thesis
    by blast
qed

subsection \<open>The floor of a hint\<close>

lemma set_update_cases:
  "(k', h) \<in> set (AList.update k v al) \<Longrightarrow> (k', h) \<in> set al \<or> (k' = k \<and> h = v)"
  by (induction al) (auto split: if_splits)

lemma set_delete_subset: "(k', h) \<in> set (AList.delete k al) \<Longrightarrow> (k', h) \<in> set al"
  by (simp add: AList.delete_eq)

lemma calculateTarget_hints: "hints (snd (calculateTarget fc c g now)) = hints fc"
  by (cases "override fc") (simp_all add: calculateTarget_None calculateTarget_Some Let_def)

lemma controlLoop_hints:
  "hints (fst (controlLoop fc inp)) =
     filter (\<lambda>(key, hint). \<not> hintExpired (nowClean inp) hint) (hints fc)"
  by (simp add: controlLoop_fst cycleDecision_def calculateTarget_hints beforeDecision_def
      cleanExpired_def trimHistory_def Let_def)

lemma call_hints:
  assumes "(k, h) \<in> set (hints (call fc c))"
  shows "(k, h) \<in> set (hints fc) \<or>
    (\<exists>hint now. c = CallAddHint hint now \<and> k = Source hint \<and>
       h = hint\<lparr>MinFanSpeed := intensityMinSpeed (Intensity hint), CreatedAt := now\<rparr>)"
proof (cases c)
  case (CallAddHint hint now)
  then show ?thesis
    using assms by (auto simp add: AddHint_def dest: set_update_cases)
next
  case (CallRemoveHint source)
  then show ?thesis
    using assms by (auto simp add: RemoveHint_def dest: set_delete_subset)
next
  case (CallSetOverride speed dur reason nowCreated nowExpiry)
  then show ?thesis
    using assms by (simp add: SetOverride_def)
next
  case CallClearOverride
  then show ?thesis
    using assms by (simp add: ClearOverride_def)
next
  case (CallControlLoop inp)
  then show ?thesis
    using assms by (simp add: controlLoop_hints)
qed

lemma calls_derived:
  "\<forall>(k, h) \<in> set (hints fc). MinFanSpeed h = intensityMinSpeed (Intensity h) \<Longrightarrow>
   \<forall>(k, h) \<in> set (hints (calls fc cs)). MinFanSpeed h = intensityMinSpeed (Intensity h)"
proof (induction cs arbitrary: fc)
  case Nil
  then show ?case by simp
next
  case (Cons c cs)
  have "\<forall>(k, h) \<in> set (hints (call fc c)). MinFanSpeed h = intensityMinSpeed (Intensity h)"
  proof (clarify)
    fix k h
    assume "(k, h) \<in> set (hints (call fc c))"
    from call_hints [OF this] show "MinFanSpeed h = intensityMinSpeed (Intensity h)"
      using Cons.prems by auto
  qed
  from Cons.IH [OF this] show ?case by simp
qed

text \<open>
  C8: \<open>AddHint\<close> stores, under the hint's source, the hint with \<open>MinFanSpeed\<close> set from
  its intensity (high 45, medium 25, low 15, anything else 25) and \<open>CreatedAt\<close> set to
  the time of the call; the \<open>MinFanSpeed\<close> that the caller supplied has no effect. No
  later call changes a stored hint: \<open>calculateTarget\<close> leaves the registry as it is, and
  an entry that is in the registry after a registry operation or a cycle is an entry that
  was there before, or the hint that this very call added. So in every controller reached
  from a new one, each stored \<open>MinFanSpeed\<close> is the one its intensity gives.
\<close>

theorem AddHint_MinFanSpeed:
  "map_of (hints (AddHint fc hint now)) (Source hint) =
     Some (hint\<lparr>MinFanSpeed := intensityMinSpeed (Intensity hint), CreatedAt := now\<rparr>) \<and>
   AddHint fc (hint\<lparr>MinFanSpeed := supplied\<rparr>) now = AddHint fc hint now \<and>
   intensityMinSpeed ''high'' = 45 \<and>
   intensityMinSpeed ''medium'' = 25 \<and>
   intensityMinSpeed ''low'' = 15 \<and>
   (i \<noteq> ''high'' \<and> i \<noteq> ''medium'' \<and> i \<noteq> ''low'' \<longrightarrow> intensityMinSpeed i = 25) \<and>
   hints (snd (calculateTarget fc cpuReading gpuReading t)) = hints fc \<and>
   (\<forall>(k, h) \<in> set (hints (call fc c)).
      (k, h) \<in> set (hints fc) \<or>
      (\<exists>hint now. c = CallAddHint hint now \<and> k = Source hint \<and>
         h = hint\<lparr>MinFanSpeed := intensityMinSpeed (Intensity hint), CreatedAt := now\<rparr>)) \<and>
   (\<forall>(k, h) \<in> set (hints (calls (NewFanController conf) cs)).
      MinFanSpeed h = intensityMinSpeed (Intensity h))"
proof (intro conjI impI)
  show "map_of (hints (AddHint fc hint now)) (Source hint) =
     Some (hint\<lparr>MinFanSpeed := intensityMinSpeed (Intensity hint), CreatedAt := now\<rparr>)"
    by (simp add: AddHint_def update_conv')
  show "AddHint fc (hint\<lparr>MinFanSpeed := supplied\<rparr>) now = AddHint fc hint now"
    by (simp add: AddHint_def)
  show "intensityMinSpeed ''high'' = 45" "intensityMinSpeed ''medium'' = 25"
    "intensityMinSpeed ''low'' = 15"
    by (simp_all add: intensityMinSpeed_def)
  show "hints (snd (calculateTarget fc cpuReading gpuReading t)) = hints fc"
    by (rule calculateTarget_hints)
  show "\<forall>(k, h) \<in> set (hints (call fc c)).
      (k, h) \<in> set (hints fc) \<or>
      (\<exists>hint now. c = CallAddHint hint now \<and> k = Source hint \<and>
         h = hint\<lparr>MinFanSpeed := intensityMinSpeed (Intensity hint), CreatedAt := now\<rparr>)"
    using call_hints by blast
  show "\<forall>(k, h) \<in> set (hints (calls (NewFanController conf) cs)).
      MinFanSpeed h = intensityMinSpeed (Intensity h)"
    by (rule calls_derived) (simp add: NewFanController_def)
next
  assume "i \<noteq> ''high'' \<and> i \<noteq> ''medium'' \<and> i \<noteq> ''low''"
  then show "intensityMinSpeed i = 25"
    by (simp add: intensityMinSpeed_def)
qed

text \<open>
  A high-intensity hint supplied with \<open>MinFanSpeed = 5\<close> is stored with 45 and is still
  so after a cycle and a \<open>ClearOverride\<close>; the hint that \<open>hintedController\<close> holds is
  untouched by a cycle; the intensity \<open>turbo\<close> gives 25.
\<close>

theorem AddHint_MinFanSpeed_witness:
  "MinFanSpeed callerHint = 5 \<and>
   map_of (hints (AddHint idleController callerHint (1000 * Second))) ''render'' =
     Some (callerHint\<lparr>MinFanSpeed := 45, CreatedAt := 1000 * Second\<rparr>) \<and>
   (''render'', callerHint\<lparr>MinFanSpeed := 45, CreatedAt := 1000 * Second\<rparr>)
     \<in> set (hints (calls (NewFanController Default)
         [CallAddHint callerHint (1000 * Second), CallControlLoop hotCycle,
          CallClearOverride])) \<and>
   MinFanSpeed (callerHint\<lparr>MinFanSpeed := 45, CreatedAt := 1000 * Second\<rparr>) =
     intensityMinSpeed (Intensity (callerHint\<lparr>MinFanSpeed := 45, CreatedAt := 1000 * Second\<rparr>)) \<and>
   (''whisper'', highHint) \<in> set (hints (call hintedController (CallControlLoop hotCycle))) \<and>
   (''whisper'', highHint) \<in> set (hints hintedController) \<and>
   ''turbo'' \<noteq> ''high'' \<and> ''turbo'' \<noteq> ''medium'' \<and> ''turbo'' \<noteq> ''low'' \<and>
   intensityMinSpeed ''turbo'' = 25"
proof -
  note t = AddHint_MinFanSpeed [where fc = idleController and hint = callerHint
      and now = "1000 * Second" and i = "''turbo''" and conf = Default
      and cs = "[CallAddHint callerHint (1000 * Second), CallControlLoop hotCycle,
          CallClearOverride]"]
  note u = AddHint_MinFanSpeed [where fc = hintedController and c = "CallControlLoop hotCycle"]
  note t_stored = t [THEN conjunct1]
  note t_other = t [THEN conjunct2, THEN conjunct2, THEN conjunct2, THEN conjunct2,
      THEN conjunct2, THEN conjunct1]
  note t_reached = t [THEN conjunct2, THEN conjunct2, THEN conjunct2, THEN conjunct2,
      THEN conjunct2, THEN conjunct2, THEN conjunct2, THEN conjunct2]
  note u_frame = u [THEN conjunct2, THEN conjunct2, THEN conjunct2, THEN conjunct2,
      THEN conjunct2, THEN conjunct2, THEN conjunct2, THEN conjunct1]
  have s: "Source callerHint = ''render''" "Intensity callerHint = ''high''"
    "MinFanSpeed callerHint = 5" "ExpiresAt callerHint = 0"
    by (simp_all add: callerHint_def)
  have high: "intensityMinSpeed ''high'' = 45"
    by (simp add: intensityMinSpeed_def)
  have stored: "map_of (hints (AddHint idleController callerHint (1000 * Second))) ''render'' =
     Some (callerHint\<lparr>MinFanSpeed := 45, CreatedAt := 1000 * Second\<rparr>)"
    using t_stored by (simp add: s high)
  have reached: "hints (calls (NewFanController Default)
         [CallAddHint callerHint (1000 * Second), CallControlLoop hotCycle,
          CallClearOverride]) =
      [(''render'', callerHint\<lparr>MinFanSpeed := 45, CreatedAt := 1000 * Second\<rparr>)]"
    by (simp add: controlLoop_hints ClearOverride_def AddHint_def NewFanController_def s high
        hintExpired_def IsZero_def)
  have member: "(''render'', callerHint\<lparr>MinFanSpeed := 45, CreatedAt := 1000 * Second\<rparr>)
     \<in> set (hints (calls (NewFanController Default)
         [CallAddHint callerHint (1000 * Second), CallControlLoop hotCycle,
          CallClearOverride]))"
    unfolding reached by simp
  have derived: "MinFanSpeed (callerHint\<lparr>MinFanSpeed := 45, CreatedAt := 1000 * Second\<rparr>) =
     intensityMinSpeed (Intensity (callerHint\<lparr>MinFanSpeed := 45, CreatedAt := 1000 * Second\<rparr>))"
    using bspec [OF t_reached member] by simp
  have kept: "(''whisper'', highHint) \<in> set (hints (call hintedController (CallControlLoop hotCycle)))"
    by (simp add: controlLoop_hints hintedController_def highHint_def hintExpired_def IsZero_def)
  have before: "(''whisper'', highHint) \<in> set (hints hintedController)"
    using bspec [OF u_frame kept] by simp
  have turbo: "''turbo'' \<noteq> ''high'' \<and> ''turbo'' \<noteq> ''medium'' \<and> ''turbo'' \<noteq> ''low''"
    by simp
  have other: "intensityMinSpeed ''turbo'' = 25"
    using t_other turbo by (rule mp)
  show ?thesis
    by (intro conjI s(3) stored member derived kept before
        turbo [THEN conjunct1] turbo [THEN conjunct2, THEN conjunct1]
        turbo [THEN conjunct2, THEN conjunct2] other)
qed

subsection \<open>A failed sensor read\<close>

lemma controlLoop_logged:
  "logged (snd (controlLoop fc inp)) =
     (case cpuRead inp of Inl err \<Rightarrow> [CPUReadError err] | Inr r \<Rightarrow> []) @
     (case gpuRead inp of Inl err \<Rightarrow> [GPUReadError err] | Inr r \<Rightarrow> []) @
     (case ipmiResult inp of None \<Rightarrow> [] | Some e \<Rightarrow> [SetFanSpeedFailed e]) @
     [CycleLine (CPU_Max (cycleCPU inp)) (GPU_Max (cycleGPU inp))
        (currentZone (fst (controlLoop fc inp))) (actuated (snd (controlLoop fc inp)))]"
  by (simp add: controlLoop_def cycleDecision_def beforeDecision_def cycleCPU_def cycleGPU_def
      setFanSpeed_def Let_def case_prod_beta split: sum.splits)

lemma cycleCPU_failed: "cpuRead inp = Inl err \<Longrightarrow> cycleCPU inp = cpuFallback"
  by (simp add: cycleCPU_def)

lemma cycleGPU_failed: "gpuRead inp = Inl err \<Longrightarrow> cycleGPU inp = gpuFallback"
  by (simp add: cycleGPU_def)

lemma cycleDecision_cong:
  "cycleCPU inp' = cycleCPU inp \<Longrightarrow> cycleGPU inp' = cycleGPU inp \<Longrightarrow>
   nowAppend inp' = nowAppend inp \<Longrightarrow> nowTrim inp' = nowTrim inp \<Longrightarrow>
   nowClean inp' = nowClean inp \<Longrightarrow> nowDecide inp' = nowDecide inp \<Longrightarrow>
   cycleDecision fc inp' = cycleDecision fc inp"
  by (simp add: cycleDecision_def beforeDecision_def)

lemma calculateTarget_history:
  "cpuHistory (snd (calculateTarget fc c g now)) = cpuHistory fc"
  "gpuHistory (snd (calculateTarget fc c g now)) = gpuHistory fc"
  "lastCPUReading (snd (calculateTarget fc c g now)) = lastCPUReading fc"
  "lastGPUReading (snd (calculateTarget fc c g now)) = lastGPUReading fc"
  by (cases "override fc"; simp add: calculateTarget_None calculateTarget_Some Let_def)+

lemma controlLoop_history:
  "cpuHistory (fst (controlLoop fc inp)) =
     filter (\<lambda>p. After (timestamp p)
               (time_Add (nowTrim inp)
                  (go_mul (go_neg (HistoryRetention (Monitoring (cfg fc)))) Second)))
       (cpuHistory fc @ [\<lparr>temp = CPU_Max (cycleCPU inp), timestamp = nowAppend inp\<rparr>])"
  "gpuHistory (fst (controlLoop fc inp)) =
     filter (\<lambda>p. After (timestamp p)
               (time_Add (nowTrim inp)
                  (go_mul (go_neg (HistoryRetention (Monitoring (cfg fc)))) Second)))
       (gpuHistory fc @ [\<lparr>temp = GPU_Max (cycleGPU inp), timestamp = nowAppend inp\<rparr>])"
  "lastCPUReading (fst (controlLoop fc inp)) = Some (cycleCPU inp)"
  "lastGPUReading (fst (controlLoop fc inp)) = Some (cycleGPU inp)"
  by (simp_all add: controlLoop_fst cycleDecision_def calculateTarget_history beforeDecision_def
      cleanExpired_def trimHistory_def Let_def)

text \<open>
  C9: the fallback readings are \<open>{Temps: [], Max: 0}\<close> and \<open>{Devices: [], Max: 0}\<close>. When
  the CPU read fails, the cycle logs the error and leaves the controller that a cycle
  with a successful read of the fallback reading leaves: the fallback is the last CPU
  reading, its maximum 0 is appended to the CPU history (which is then trimmed), it is
  the reading handed to \<open>calculateTarget\<close>, the target computed from it is handed to
  \<open>setFanSpeed\<close>, and 0 is handed to \<open>RecordReading\<close>. The same holds for the GPU. Every
  cycle runs to its last statement, the log line of line 169.
\<close>

theorem controlLoop_read_failure:
  "cpuFallback = \<lparr>Temps = [], CPU_Max = 0\<rparr> \<and>
   gpuFallback = \<lparr>Devices = [], GPU_Max = 0\<rparr> \<and>
   (cpuRead inp = Inl err \<longrightarrow>
      CPUReadError err \<in> set (logged (snd (controlLoop fc inp))) \<and>
      fst (controlLoop fc inp) = fst (controlLoop fc (inp\<lparr>cpuRead := Inr cpuFallback\<rparr>)) \<and>
      lastCPUReading (fst (controlLoop fc inp)) = Some cpuFallback \<and>
      cpuHistory (fst (controlLoop fc inp)) =
        filter (\<lambda>p. After (timestamp p)
               (time_Add (nowTrim inp)
                  (go_mul (go_neg (HistoryRetention (Monitoring (cfg fc)))) Second)))
          (cpuHistory fc @ [\<lparr>temp = 0, timestamp = nowAppend inp\<rparr>]) \<and>
      decidedOn (snd (controlLoop fc inp)) = (cpuFallback, cycleGPU inp) \<and>
      actuated (snd (controlLoop fc inp)) =
        fst (calculateTarget (beforeDecision fc inp) cpuFallback (cycleGPU inp)
               (nowDecide inp)) \<and>
      recorded (snd (controlLoop fc inp)) =
        (0, GPU_Max (cycleGPU inp), actuated (snd (controlLoop fc inp)))) \<and>
   (gpuRead inp = Inl err \<longrightarrow>
      GPUReadError err \<in> set (logged (snd (controlLoop fc inp))) \<and>
      fst (controlLoop fc inp) = fst (controlLoop fc (inp\<lparr>gpuRead := Inr gpuFallback\<rparr>)) \<and>
      lastGPUReading (fst (controlLoop fc inp)) = Some gpuFallback \<and>
      gpuHistory (fst (controlLoop fc inp)) =
        filter (\<lambda>p. After (timestamp p)
               (time_Add (nowTrim inp)
                  (go_mul (go_neg (HistoryRetention (Monitoring (cfg fc)))) Second)))
          (gpuHistory fc @ [\<lparr>temp = 0, timestamp = nowAppend inp\<rparr>]) \<and>
      decidedOn (snd (controlLoop fc inp)) = (cycleCPU inp, gpuFallback) \<and>
      actuated (snd (controlLoop fc inp)) =
        fst (calculateTarget (beforeDecision fc inp) (cycleCPU inp) gpuFallback
               (nowDecide inp)) \<and>
      recorded (snd (controlLoop fc inp)) =
        (CPU_Max (cycleCPU inp), 0, actuated (snd (controlLoop fc inp)))) \<and>
   last (logged (snd (controlLoop fc inp))) =
     CycleLine (CPU_Max (cycleCPU inp)) (GPU_Max (cycleGPU inp))
       (currentZone (fst (controlLoop fc inp))) (actuated (snd (controlLoop fc inp)))"
proof (intro conjI impI)
  show "cpuFallback = \<lparr>Temps = [], CPU_Max = 0\<rparr>"
    by (simp add: cpuFallback_def)
  show "gpuFallback = \<lparr>Devices = [], GPU_Max = 0\<rparr>"
    by (simp add: gpuFallback_def)
  show "last (logged (snd (controlLoop fc inp))) =
     CycleLine (CPU_Max (cycleCPU inp)) (GPU_Max (cycleGPU inp))
       (currentZone (fst (controlLoop fc inp))) (actuated (snd (controlLoop fc inp)))"
    by (simp add: controlLoop_logged)
next
  assume f: "cpuRead inp = Inl err"
  have c: "cycleCPU inp = cpuFallback"
    using f by (rule cycleCPU_failed)
  have z: "CPU_Max cpuFallback = 0"
    by (simp add: cpuFallback_def)
  show "CPUReadError err \<in> set (logged (snd (controlLoop fc inp)))"
    by (simp add: controlLoop_logged f)
  have "cycleDecision fc (inp\<lparr>cpuRead := Inr cpuFallback\<rparr>) = cycleDecision fc inp"
    by (rule cycleDecision_cong) (simp_all add: f cycleCPU_def cycleGPU_def)
  then show "fst (controlLoop fc inp) = fst (controlLoop fc (inp\<lparr>cpuRead := Inr cpuFallback\<rparr>))"
    by (simp add: controlLoop_fst)
  show "lastCPUReading (fst (controlLoop fc inp)) = Some cpuFallback"
    by (simp add: controlLoop_history c)
  show "cpuHistory (fst (controlLoop fc inp)) =
        filter (\<lambda>p. After (timestamp p)
               (time_Add (nowTrim inp)
                  (go_mul (go_neg (HistoryRetention (Monitoring (cfg fc)))) Second)))
          (cpuHistory fc @ [\<lparr>temp = 0, timestamp = nowAppend inp\<rparr>])"
    by (simp only: controlLoop_history c z)
  show "decidedOn (snd (controlLoop fc inp)) = (cpuFallback, cycleGPU inp)"
    by (simp add: controlLoop_snd c)
  show "actuated (snd (controlLoop fc inp)) =
        fst (calculateTarget (beforeDecision fc inp) cpuFallback (cycleGPU inp) (nowDecide inp))"
    by (simp add: controlLoop_snd cycleDecision_def c)
  show "recorded (snd (controlLoop fc inp)) =
        (0, GPU_Max (cycleGPU inp), actuated (snd (controlLoop fc inp)))"
    by (simp add: controlLoop_snd c z)
next
  assume f: "gpuRead inp = Inl err"
  have c: "cycleGPU inp = gpuFallback"
    using f by (rule cycleGPU_failed)
  have z: "GPU_Max gpuFallback = 0"
    by (simp add: gpuFallback_def)
  show "GPUReadError err \<in> set (logged (snd (controlLoop fc inp)))"
    by (simp add: controlLoop_logged f)
  have "cycleDecision fc (inp\<lparr>gpuRead := Inr gpuFallback\<rparr>) = cycleDecision fc inp"
    by (rule cycleDecision_cong) (simp_all add: f cycleCPU_def cycleGPU_def)
  then show "fst (controlLoop fc inp) = fst (controlLoop fc (inp\<lparr>gpuRead := Inr gpuFallback\<rparr>))"
    by (simp add: controlLoop_fst)
  show "lastGPUReading (fst (controlLoop fc inp)) = Some gpuFallback"
    by (simp add: controlLoop_history c)
  show "gpuHistory (fst (controlLoop fc inp)) =
        filter (\<lambda>p. After (timestamp p)
               (time_Add (nowTrim inp)
                  (go_mul (go_neg (HistoryRetention (Monitoring (cfg fc)))) Second)))
          (gpuHistory fc @ [\<lparr>temp = 0, timestamp = nowAppend inp\<rparr>])"
    by (simp only: controlLoop_history c z)
  show "decidedOn (snd (controlLoop fc inp)) = (cycleCPU inp, gpuFallback)"
    by (simp add: controlLoop_snd c)
  show "actuated (snd (controlLoop fc inp)) =
        fst (calculateTarget (beforeDecision fc inp) (cycleCPU inp) gpuFallback (nowDecide inp))"
    by (simp add: controlLoop_snd cycleDecision_def c)
  show "recorded (snd (controlLoop fc inp)) =
        (CPU_Max (cycleCPU inp), 0, actuated (snd (controlLoop fc inp)))"
    by (simp add: controlLoop_snd c z)
qed

text \<open>
  The cycle in which both reads (and the ipmitool command) fail, from the idle
  controller: both errors are logged, both fallbacks are stored and decided on, and
  \<open>RecordReading\<close> gets 0, 0 and the target 20.
\<close>

theorem controlLoop_read_failure_witness:
  "cpuRead failedCycle = Inl ''exit status 1'' \<and>
   gpuRead failedCycle = Inl ''exit status 9'' \<and>
   CPUReadError ''exit status 1'' \<in> set (logged (snd (controlLoop idleController failedCycle))) \<and>
   GPUReadError ''exit status 9'' \<in> set (logged (snd (controlLoop idleController failedCycle))) \<and>
   lastCPUReading (fst (controlLoop idleController failedCycle)) =
     Some \<lparr>Temps = [], CPU_Max = 0\<rparr> \<and>
   lastGPUReading (fst (controlLoop idleController failedCycle)) =
     Some \<lparr>Devices = [], GPU_Max = 0\<rparr> \<and>
   decidedOn (snd (controlLoop idleController failedCycle)) =
     (\<lparr>Temps = [], CPU_Max = 0\<rparr>, \<lparr>Devices = [], GPU_Max = 0\<rparr>) \<and>
   recorded (snd (controlLoop idleController failedCycle)) = (0, 0, 20)"
proof -
  note c = controlLoop_read_failure [where inp = failedCycle and fc = idleController
      and err = "''exit status 1''"]
  note g = controlLoop_read_failure [where inp = failedCycle and fc = idleController
      and err = "''exit status 9''"]
  have fc: "cpuRead failedCycle = Inl ''exit status 1''"
    and fg: "gpuRead failedCycle = Inl ''exit status 9''"
    by (simp_all add: failedCycle_def)
  have target: "actuated (snd (controlLoop idleController failedCycle)) = 20"
    by (simp add: controlLoop_snd cycleDecision_def beforeDecision_def cycleCPU_def
        cycleGPU_def failedCycle_def idleController_def NewFanController_def Default_def
        cleanExpired_def trimHistory_def calculateTarget_def rampTarget_def overThreshold_def
        cpuThreshold_def gpuThreshold_def baseSpeed_def hintMinSpeed_def IsZero_def
        cpuFallback_def gpuFallback_def Let_def)
  have cg: "cycleGPU failedCycle = gpuFallback"
    using fg by (rule cycleGPU_failed)
  have "decidedOn (snd (controlLoop idleController failedCycle)) = (cpuFallback, gpuFallback)"
    using c fc by (simp add: cg)
  moreover have "recorded (snd (controlLoop idleController failedCycle)) = (0, 0, 20)"
    using c fc by (simp add: cg target gpuFallback_def)
  moreover have "CPUReadError ''exit status 1''
      \<in> set (logged (snd (controlLoop idleController failedCycle)))"
    and "lastCPUReading (fst (controlLoop idleController failedCycle)) = Some cpuFallback"
    using c fc by blast+
  moreover have "GPUReadError ''exit status 9''
      \<in> set (logged (snd (controlLoop idleController failedCycle)))"
    and "lastGPUReading (fst (controlLoop idleController failedCycle)) = Some gpuFallback"
    using g fg by blast+
  ultimately show ?thesis
    using fc fg by (simp add: cpuFallback_def gpuFallback_def)
qed

subsection \<open>The status snapshot\<close>

lemma GetStatus_config:
  "Status_CPUThreshold (GetStatus fc now nowCPU nowGPU) = cpuThreshold (cfg fc)"
  "Status_GPUThreshold (GetStatus fc now nowCPU nowGPU) = gpuThreshold (cfg fc)"
  "Status_IdleSpeed (GetStatus fc now nowCPU nowGPU) = IdleSpeed (FanControl (cfg fc))"
  by (simp_all add: GetStatus_def cpuThreshold_def gpuThreshold_def Let_def)

text \<open>
  C10: with \<open>IdleSpeed\<close>, \<open>CPUThreshold\<close> and \<open>GPUThreshold\<close> configured as 0, \<open>GetStatus\<close>
  reports the thresholds 65 and 60 that \<open>calculateTarget\<close> uses, but reports the idle
  speed 0, where \<open>calculateTarget\<close> uses 20 (and returns it for a cool machine):
  line 513 copies the configured value.
\<close>

theorem GetStatus_IdleSpeed_not_substituted:
  "IdleSpeed (FanControl (cfg (NewFanController zeroDefaults))) = 0 \<and>
   CPUThreshold (FanControl (cfg (NewFanController zeroDefaults))) = 0 \<and>
   GPUThreshold (FanControl (cfg (NewFanController zeroDefaults))) = 0 \<and>
   Status_CPUThreshold (GetStatus (NewFanController zeroDefaults) 0 0 0) = 65 \<and>
   Status_GPUThreshold (GetStatus (NewFanController zeroDefaults) 0 0 0) = 60 \<and>
   Status_IdleSpeed (GetStatus (NewFanController zeroDefaults) 0 0 0) = 0 \<and>
   baseSpeed (cfg (NewFanController zeroDefaults)) = 20 \<and>
   fst (calculateTarget (NewFanController zeroDefaults) coolCPU coolGPU (2000 * Second)) = 20"
  by (simp add: GetStatus_def NewFanController_def zeroDefaults_def Default_def baseSpeed_def
      calculateTarget_def rampTarget_def overThreshold_def cpuThreshold_def gpuThreshold_def
      hintMinSpeed_def IsZero_def coolCPU_def coolGPU_def Let_def)

end
